theory Spec2Isabelle
  imports Complex_Main
begin

section \<open>JavaScript values\<close>

text \<open>
  The values the normalisation code receives are parsed JSON, read and rebuilt with
  JavaScript object operations.  An object is the list of its own properties in the order
  JavaScript enumerates them: the keys are distinct, the array indices come first in
  ascending order, the other keys follow in the order they were created.
  \<open>JUndefined\<close> is what reading a missing property yields.  Numbers pass through the
  code untouched, so they are reals here.
\<close>

datatype json =
    JUndefined
  | JNull
  | JBool bool
  | JNum real
  | JStr string
  | JArr "json list"
  | JObj "(string \<times> json) list"

text \<open>Property read \<open>v[k]\<close>: \<open>JUndefined\<close> when the property is missing.\<close>

definition field :: "string \<Rightarrow> json \<Rightarrow> json" where
  "field k v = (case v of
      JObj kvs \<Rightarrow> (case map_of kvs k of Some x \<Rightarrow> x | None \<Rightarrow> JUndefined)
    | _ \<Rightarrow> JUndefined)"

text \<open>The \<open>in\<close> operator on an object.\<close>

definition has_key :: "string \<Rightarrow> json \<Rightarrow> bool" where
  "has_key k v = (case v of JObj kvs \<Rightarrow> k \<in> set (map fst kvs) | _ \<Rightarrow> False)"

text \<open>
  An array index is the canonical decimal text of a number below \<open>2^32 - 1\<close>: digits
  only, and no leading zero but for \<open>0\<close> itself.
\<close>

definition digit_of :: "char \<Rightarrow> nat option" where
  "digit_of c = (let n = (of_char c :: nat) in if 48 \<le> n \<and> n \<le> 57 then Some (n - 48) else None)"

fun digits_nat :: "string \<Rightarrow> nat \<Rightarrow> nat option" where
  "digits_nat [] acc = Some acc"
| "digits_nat (c # cs) acc =
     (case digit_of c of None \<Rightarrow> None | Some d \<Rightarrow> digits_nat cs (10 * acc + d))"

definition array_index :: "string \<Rightarrow> nat option" where
  "array_index s =
     (case s of
        [] \<Rightarrow> None
      | c # cs \<Rightarrow>
          (if c = CHR ''0'' \<and> cs \<noteq> [] then None
           else (case digits_nat s 0 of
                   None \<Rightarrow> None
                 | Some n \<Rightarrow> if n < 4294967295 then Some n else None)))"

text \<open>
  Creating or writing an own property \<open>k\<close>.  A key the object has keeps its place and
  takes the new value.  A new array index goes before the first property that is not a
  smaller array index.  Any other new key goes last.
\<close>

fun replace_prop :: "string \<Rightarrow> json \<Rightarrow> (string \<times> json) list \<Rightarrow> (string \<times> json) list" where
  "replace_prop k v [] = []"
| "replace_prop k v ((k', v') # kvs) =
     (if k' = k then (k, v) # kvs else (k', v') # replace_prop k v kvs)"

fun insert_index :: "nat \<Rightarrow> string \<Rightarrow> json \<Rightarrow> (string \<times> json) list \<Rightarrow> (string \<times> json) list" where
  "insert_index n k v [] = [(k, v)]"
| "insert_index n k v ((k', v') # kvs) =
     (case array_index k' of
        None \<Rightarrow> (k, v) # (k', v') # kvs
      | Some m \<Rightarrow>
          (if m < n then (k', v') # insert_index n k v kvs else (k, v) # (k', v') # kvs))"

definition set_prop :: "string \<Rightarrow> json \<Rightarrow> (string \<times> json) list \<Rightarrow> (string \<times> json) list" where
  "set_prop k v kvs =
     (if k \<in> set (map fst kvs) then replace_prop k v kvs
      else (case array_index k of
              None \<Rightarrow> kvs @ [(k, v)]
            | Some n \<Rightarrow> insert_index n k v kvs))"

text \<open>The object that results from writing the given properties, in turn, to a fresh object.\<close>

definition js_object :: "(string \<times> json) list \<Rightarrow> (string \<times> json) list" where
  "js_object pairs = foldl (\<lambda>obj (k, v). set_prop k v obj) [] pairs"

datatype error = ZodError | TypeError | Unreachable

section \<open>The zod combinators the schemas are built from\<close>

text \<open>
  zod is a third-party library; the schemas of \<open>toolCallSchemas.ts\<close> use
  \<open>z.string\<close>, \<open>z.literal\<close>, \<open>z.record(z.unknown())\<close>, \<open>z.object\<close> and
  \<open>.passthrough()\<close>.  A schema is modelled by its \<open>safeParse\<close>: \<open>None\<close> is
  \<open>success: false\<close>, \<open>Some d\<close> is \<open>success: true\<close> with \<open>data = d\<close>.
  An object schema parses every key of its shape (a missing key reads as undefined),
  emits the shape's keys in the shape's order, and then treats the keys outside the
  shape as its \<open>unknownKeys\<close> mode says: \<open>Strip\<close> (the default of \<open>z.object\<close>)
  drops them, \<open>Passthrough\<close> (set by \<open>.passthrough()\<close>) copies them to the output.
  Object and record schemas build their output as a new object from the parsed
  (key, value) pairs, and leave a pair with the key \<open>__proto__\<close> out of it.  An
  unknown key whose value is undefined is not copied.
\<close>

text \<open>The output object of an object or record schema, from its parsed pairs.\<close>

definition merge_object :: "(string \<times> json) list \<Rightarrow> (string \<times> json) list" where
  "merge_object pairs = js_object (filter (\<lambda>(k, v). k \<noteq> ''__proto__'') pairs)"

type_synonym zod = "json \<Rightarrow> json option"

definition z_string :: zod where
  "z_string v = (case v of JStr s \<Rightarrow> Some (JStr s) | _ \<Rightarrow> None)"

definition z_literal :: "string \<Rightarrow> zod" where
  "z_literal l v = (if v = JStr l then Some (JStr l) else None)"

text \<open>\<open>z.record(z.unknown())\<close>: every entry of an object validates, with its value as it is.\<close>

definition z_record_unknown :: zod where
  "z_record_unknown v = (case v of JObj kvs \<Rightarrow> Some (JObj (merge_object kvs)) | _ \<Rightarrow> None)"

datatype unknownKeys = Strip | Passthrough

fun z_shape :: "(string \<times> zod) list \<Rightarrow> json \<Rightarrow> (string \<times> json) list option" where
  "z_shape [] data = Some []"
| "z_shape ((k, p) # shape) data =
     (case p (field k data) of
        None \<Rightarrow> None
      | Some v \<Rightarrow>
          (case z_shape shape data of
             None \<Rightarrow> None
           | Some out \<Rightarrow>
               Some (if v \<noteq> JUndefined \<or> has_key k data then (k, v) # out else out)))"

definition z_object :: "(string \<times> zod) list \<Rightarrow> unknownKeys \<Rightarrow> zod" where
  "z_object shape mode v = (case v of
      JObj kvs \<Rightarrow>
        (case z_shape shape (JObj kvs) of
           None \<Rightarrow> None
         | Some out \<Rightarrow>
             Some (JObj (merge_object (out @
               (case mode of
                  Strip \<Rightarrow> []
                | Passthrough \<Rightarrow>
                    filter (\<lambda>(k, v). k \<notin> set (map fst shape) \<and> v \<noteq> JUndefined) kvs)))))
    | _ \<Rightarrow> None)"

text \<open>\<open>schema.parse(v)\<close> throws a \<open>ZodError\<close> where \<open>safeParse\<close> fails.\<close>

definition parse :: "zod \<Rightarrow> json \<Rightarrow> error + json" where
  "parse schema v = (case schema v of None \<Rightarrow> Inl ZodError | Some d \<Rightarrow> Inr d)"

section \<open>Tool call schemas (toolCallSchemas.ts)\<close>

definition openAIToolCallSchema :: zod where
  "openAIToolCallSchema =
     z_object
       [(''id'', z_string),
        (''function'',
           z_object [(''name'', z_string), (''arguments'', z_record_unknown)] Passthrough)]
       Strip"

definition anthropicToolCallSchema :: zod where
  "anthropicToolCallSchema =
     z_object
       [(''id'', z_string),
        (''type'', z_literal ''tool_use''),
        (''name'', z_string),
        (''input'', z_record_unknown)]
       Passthrough"

text \<open>
  The two transforms.  Each runs on the data its schema validated.  Reading a property
  of \<open>openai.function\<close> throws a \<open>TypeError\<close> when \<open>function\<close> is null or
  undefined.
\<close>

definition anthropicToOpenAI :: "json \<Rightarrow> json" where
  "anthropicToOpenAI anthropic =
     JObj [(''id'', field ''id'' anthropic),
           (''function'',
              JObj [(''name'', field ''name'' anthropic),
                    (''arguments'', field ''input'' anthropic)])]"

definition openAIToAnthropic :: "json \<Rightarrow> error + json" where
  "openAIToAnthropic openai =
     (let f = field ''function'' openai in
      if f = JUndefined \<or> f = JNull then Inl TypeError
      else Inr (JObj
        [(''id'', field ''id'' openai),
         (''type'', JStr ''tool_use''),
         (''name'', field ''name'' f),
         (''input'',
            (case field ''arguments'' f of
               JStr s \<Rightarrow> JObj [(s, JStr s)]
             | JUndefined \<Rightarrow> JObj []
             | JNull \<Rightarrow> JObj []
             | a \<Rightarrow> a))]))"

text \<open>\<open>schema.transform(f).parse(v)\<close>: validate, then transform the validated data.\<close>

definition anthropicToolCallToOpenAI :: "json \<Rightarrow> error + json" where
  "anthropicToolCallToOpenAI v =
     (case parse anthropicToolCallSchema v of
        Inl e \<Rightarrow> Inl e
      | Inr d \<Rightarrow> Inr (anthropicToOpenAI d))"

definition openAIToolCallToAnthropic :: "json \<Rightarrow> error + json" where
  "openAIToolCallToAnthropic v =
     (case parse openAIToolCallSchema v of
        Inl e \<Rightarrow> Inl e
      | Inr d \<Rightarrow> openAIToAnthropic d)"

datatype ModelProvider = OPENAI | AZURE_OPENAI | ANTHROPIC | GEMINI

text \<open>The provider tag of \<open>ToolCallWithProvider\<close>.\<close>

datatype ToolCallProvider = TC_OPENAI | TC_AZURE_OPENAI | TC_ANTHROPIC | TC_UNKNOWN

record ToolCallWithProvider =
  provider :: ToolCallProvider
  validatedToolCall :: "json option"

definition detectToolCallProvider :: "json \<Rightarrow> ToolCallWithProvider" where
  "detectToolCallProvider toolCall =
     (case openAIToolCallSchema toolCall of
        Some openaiData \<Rightarrow> \<lparr>provider = TC_OPENAI, validatedToolCall = Some openaiData\<rparr>
      | None \<Rightarrow>
          (case anthropicToolCallSchema toolCall of
             Some anthropicData \<Rightarrow>
               \<lparr>provider = TC_ANTHROPIC, validatedToolCall = Some anthropicData\<rparr>
           | None \<Rightarrow> \<lparr>provider = TC_UNKNOWN, validatedToolCall = None\<rparr>))"

text \<open>
  \<open>toOpenAIToolCall\<close>: \<open>Inr None\<close> is the \<open>null\<close> result, \<open>Inl\<close> a thrown error.
  The validated tool call is non-null for every provider but \<open>UNKNOWN\<close>.
\<close>

definition toOpenAIToolCall :: "json \<Rightarrow> error + json option" where
  "toOpenAIToolCall toolCall =
     (let d = detectToolCallProvider toolCall;
          validated = (case validatedToolCall d of Some v \<Rightarrow> v | None \<Rightarrow> JNull)
      in case provider d of
           TC_AZURE_OPENAI \<Rightarrow> Inr (Some validated)
         | TC_OPENAI \<Rightarrow> Inr (Some validated)
         | TC_ANTHROPIC \<Rightarrow>
             (case anthropicToolCallToOpenAI validated of
                Inl e \<Rightarrow> Inl e
              | Inr r \<Rightarrow> Inr (Some r))
         | TC_UNKNOWN \<Rightarrow> Inr None)"

definition fromOpenAIToolCall :: "json \<Rightarrow> ModelProvider \<Rightarrow> error + json" where
  "fromOpenAIToolCall toolCall targetProvider =
     (case targetProvider of
        AZURE_OPENAI \<Rightarrow> Inr toolCall
      | OPENAI \<Rightarrow> Inr toolCall
      | ANTHROPIC \<Rightarrow> openAIToolCallToAnthropic toolCall
      | GEMINI \<Rightarrow> Inr toolCall)"

section \<open>Invocation parameters (playgroundUtils.ts)\<close>

text \<open>
  A property that is typed optional and nullable holds undefined, null or a value;
  \<open>===\<close> tells undefined from null, \<open>== null\<close> does not.
\<close>

datatype 'a nullish = Undefined | Null | Defined 'a

definition is_nullish :: "'a nullish \<Rightarrow> bool" where
  "is_nullish x = (case x of Defined _ \<Rightarrow> False | _ \<Rightarrow> True)"

definition json_of_nullish :: "string nullish \<Rightarrow> json" where
  "json_of_nullish x = (case x of Undefined \<Rightarrow> JUndefined | Null \<Rightarrow> JNull | Defined s \<Rightarrow> JStr s)"

text \<open>Truthiness of a string-typed property: undefined, null and the empty string are falsy.\<close>

definition truthy :: "string nullish \<Rightarrow> bool" where
  "truthy x = (case x of Defined s \<Rightarrow> s \<noteq> [] | _ \<Rightarrow> False)"

text \<open>
  The type \<open>InvocationParameter\<close> is declared outside the sources; the fields are
  the ones this module reads.
\<close>

record InvocationParameter =
  canonicalName :: "string nullish"
  invocationName :: "string nullish"
  invocationInputField :: "string nullish"

text \<open>
  An \<open>InvocationParameterInput\<close> is built by an object literal with a computed key and
  copied by a spread, so it is kept as the property list of a JavaScript object.
\<close>

type_synonym InvocationParameterInput = "(string \<times> json) list"

text \<open>
  \<open>toLowerCase\<close> and \<open>toUpperCase\<close> on strings of ASCII characters: a letter
  changes case, every other character is kept.
\<close>

definition toLowerCase_char :: "char \<Rightarrow> char" where
  "toLowerCase_char c =
     (let n = (of_char c :: nat) in if 65 \<le> n \<and> n \<le> 90 then char_of (n + 32) else c)"

definition toUpperCase_char :: "char \<Rightarrow> char" where
  "toUpperCase_char c =
     (let n = (of_char c :: nat) in if 97 \<le> n \<and> n \<le> 122 then char_of (n - 32) else c)"

definition toLowerCase :: "string \<Rightarrow> string" where
  "toLowerCase s = map toLowerCase_char s"

text \<open>The character class \<open>[a-z]\<close>.\<close>

definition is_a_z :: "char \<Rightarrow> bool" where
  "is_a_z c = (let n = (of_char c :: nat) in 97 \<le> n \<and> n \<le> 122)"

text \<open>\<open>str.replace(/_([a-z])/g, (_, char) => char.toUpperCase())\<close>, left to right.\<close>

fun toCamelCase :: "string \<Rightarrow> string" where
  "toCamelCase (c # d # cs) =
     (if c = CHR ''_'' \<and> is_a_z d then toUpperCase_char d # toCamelCase cs
      else c # toCamelCase (d # cs))"
| "toCamelCase cs = cs"

text \<open>The predicate handed to \<open>find\<close> in the reconciliation.\<close>

definition matches_key :: "string \<Rightarrow> InvocationParameter \<Rightarrow> bool" where
  "matches_key key mp =
     ((truthy (canonicalName mp) \<and>
         (case canonicalName mp of Defined c \<Rightarrow> toLowerCase c = toLowerCase key | _ \<Rightarrow> False)) \<or>
      (truthy (invocationName mp) \<and>
         (case invocationName mp of Defined n \<Rightarrow> toLowerCase n = toLowerCase key | _ \<Rightarrow> False)))"

definition invocationParameterInput_of ::
  "InvocationParameter list \<Rightarrow> string \<times> json \<Rightarrow> InvocationParameterInput option" where
  "invocationParameterInput_of defs entry =
     (case entry of (key, val) \<Rightarrow>
        (case find (matches_key key) defs of
           None \<Rightarrow> None
         | Some invocationParameter \<Rightarrow>
             (case (invocationInputField invocationParameter, invocationName invocationParameter) of
                (Defined fld, Defined nm) \<Rightarrow>
                  Some (set_prop (toCamelCase fld) val
                    [(''canonicalName'', json_of_nullish (canonicalName invocationParameter)),
                     (''invocationName'', JStr nm)])
              | _ \<Rightarrow> None)))"

text \<open>
  The raw map is given by its \<open>Object.entries\<close>; mapping every entry and filtering the
  nulls out is \<open>List.map_filter\<close>.
\<close>

definition transformInvocationParametersFromAttributesToInvocationParameterInputs ::
  "(string \<times> json) list \<Rightarrow> InvocationParameter list \<Rightarrow> InvocationParameterInput list" where
  "transformInvocationParametersFromAttributesToInvocationParameterInputs
     invocationParameters modelSupportedInvocationParameters =
       List.map_filter (invocationParameterInput_of modelSupportedInvocationParameters)
         invocationParameters"

definition keeps_input :: "InvocationParameter list \<Rightarrow> InvocationParameterInput \<Rightarrow> bool" where
  "keeps_input definitions ip =
     list_ex (\<lambda>mp.
        json_of_nullish (invocationName mp) = field ''invocationName'' (JObj ip) \<or>
        (\<not> is_nullish (canonicalName mp) \<and>
         field ''canonicalName'' (JObj ip) \<noteq> JUndefined \<and>
         field ''canonicalName'' (JObj ip) \<noteq> JNull \<and>
         json_of_nullish (canonicalName mp) = field ''canonicalName'' (JObj ip)))
       definitions"

text \<open>
  The callback of the \<open>map\<close>: the spread copies the properties of the input to a fresh
  object, then \<open>invocationName\<close> is written.
\<close>

definition renamed_input :: "InvocationParameter list \<Rightarrow> InvocationParameterInput \<Rightarrow> InvocationParameterInput" where
  "renamed_input definitions ip =
     set_prop ''invocationName''
       (case find (\<lambda>mp. json_of_nullish (canonicalName mp) = field ''canonicalName'' (JObj ip))
               definitions of
          None \<Rightarrow> field ''invocationName'' (JObj ip)
        | Some mp \<Rightarrow>
            (case invocationName mp of
               Defined n \<Rightarrow> JStr n
             | _ \<Rightarrow> field ''invocationName'' (JObj ip)))
       (js_object ip)"

definition constrainInvocationParameterInputsToDefinition ::
  "InvocationParameterInput list \<Rightarrow> InvocationParameter list \<Rightarrow> InvocationParameterInput list" where
  "constrainInvocationParameterInputsToDefinition invocationParameterInputs definitions =
     map (renamed_input definitions) (filter (keeps_input definitions) invocationParameterInputs)"

section \<open>The parts of the repository that are outside the sources\<close>

text \<open>
  \<open>playgroundUtils.ts\<close> imports its schemas, constants and helpers from modules that
  are not among the sources.  The functions below take them as one parameter
  \<open>deps\<close>, so that what is proved of a function holds whatever these parts are.
  The error codes are distinct constants; only their names are used.
\<close>

datatype ParsingError =
    SPAN_ATTRIBUTES_PARSING_ERROR
  | INPUT_MESSAGES_PARSING_ERROR
  | OUTPUT_MESSAGES_PARSING_ERROR
  | OUTPUT_VALUE_PARSING_ERROR
  | MODEL_CONFIG_PARSING_ERROR
  | MODEL_CONFIG_WITH_INVOCATION_PARAMETERS_PARSING_ERROR
  | TOOLS_PARSING_ERROR

text \<open>The result of \<open>safelyParseJSON\<close>: \<open>parseError\<close> is truthy when it is \<open>Some\<close>.\<close>

datatype JSONParseResult = JSONParseResult (parsed: json) (parseError: "string option")

text \<open>The data a message schema validates: \<open>{message: {role, content, tool_calls}}\<close>.\<close>

datatype FunctionAttr = FunctionAttr (fn_name: "string option") (fn_arguments: "string option")

datatype ToolCallAttr =
  ToolCallAttr (tool_call_id: "string option") (tool_call_function: "FunctionAttr option")

datatype ToolCallEntry = ToolCallEntry (tool_call: "ToolCallAttr option")

datatype MessageSchema =
  MessageSchema (message_role: string) (message_content: "string option")
    (message_tool_calls: "ToolCallEntry list option")

text \<open>The data \<open>llmToolSchema\<close> validates: \<open>data?.llm?.tools\<close>, \<open>tool?.tool\<close>.\<close>

datatype ToolAttr = ToolAttr (json_schema: json)

datatype ToolEntry = ToolEntry (tool: "ToolAttr option")

datatype LlmAttr = LlmAttr (llm_tools: "ToolEntry option list option")

datatype LlmToolSchema = LlmToolSchema (llm: "LlmAttr option")

record ChatMessage =
  message_id :: nat
  role :: string
  content :: "string option"
  toolCalls :: "json list option"

record Tool =
  tool_id :: nat
  definition_of :: json

record ModelConfig =
  modelName :: string
  model_provider :: ModelProvider
  model_invocationParameters :: "InvocationParameterInput list"

datatype Template = Chat "ChatMessage list" | TextCompletion string

datatype Output = OutputMessages "ChatMessage list" | OutputValue string | OutputUndefined

record PlaygroundInstance =
  model :: ModelConfig
  template :: Template
  output_value :: Output
  spanId :: "string option"
  tools :: "Tool list"

record PlaygroundSpan =
  span_id :: string
  attributes :: string
  span_invocationParameters :: "InvocationParameter list"

text \<open>
  A schema is given by its \<open>safeParse\<close>, \<open>None\<close> for a mismatch, with the validated
  data reduced to the parts the code reads.  \<open>chatMessageRoles\<close> lists the members of
  the enum that \<open>chatMessageRolesSchema\<close> accepts.  The two tables are in the order of
  their \<open>Object.entries\<close>.  \<open>createPlaygroundInstance\<close> is the instance the call
  returns.
\<close>

record deps =
  safelyParseJSON :: "string \<Rightarrow> JSONParseResult"
  isStringKeyedObject :: "json \<Rightarrow> bool"
  chatMessageRoles :: "string list"
  ChatRoleMap :: "(string \<times> string list) list"
  DEFAULT_CHAT_ROLE :: string
  modelProviderToModelPrefixMap :: "(ModelProvider \<times> string list) list"
  DEFAULT_MODEL_PROVIDER :: ModelProvider
  llmInputMessageSchema :: "json \<Rightarrow> MessageSchema list option"
  llmOutputMessageSchema :: "json \<Rightarrow> MessageSchema list option"
  outputSchema :: "json \<Rightarrow> string option"
  modelConfigSchema :: "json \<Rightarrow> string option"
  modelConfigWithInvocationParametersSchema :: "json \<Rightarrow> (string \<times> json) list option"
  llmToolSchema :: "json \<Rightarrow> LlmToolSchema option option"
  createPlaygroundInstance :: PlaygroundInstance

text \<open>
  Modelled from the spec: the state of the identifier generators of the store, which is
  not among the sources.  The spec has identifiers freshly generated and collision-free
  within a process: each generator hands out the next number of its counter.
\<close>

record ids =
  nextMessageId :: nat
  nextToolId :: nat

text \<open>Modelled from the spec: \<open>generateMessageId\<close> of the store, a fresh message id.\<close>

definition generateMessageId :: "ids \<Rightarrow> nat \<times> ids" where
  "generateMessageId st = (nextMessageId st, st\<lparr>nextMessageId := Suc (nextMessageId st)\<rparr>)"

text \<open>Modelled from the spec: \<open>generateToolId\<close> of the store, a fresh tool id.\<close>

definition generateToolId :: "ids \<Rightarrow> nat \<times> ids" where
  "generateToolId st = (nextToolId st, st\<lparr>nextToolId := Suc (nextToolId st)\<rparr>)"

section \<open>Chat roles (playgroundUtils.ts)\<close>

text \<open>\<open>chatMessageRolesSchema.safeParse(role).success\<close>: the string is a member of the enum.\<close>

definition isChatMessageRole :: "deps \<Rightarrow> string \<Rightarrow> bool" where
  "isChatMessageRole d r = (r \<in> set (chatMessageRoles d))"

definition getChatRole :: "deps \<Rightarrow> string \<Rightarrow> string" where
  "getChatRole d r =
     (if isChatMessageRole d r then r
      else (case find (\<lambda>(chatRole, acceptedValues). r \<in> set acceptedValues) (ChatRoleMap d) of
              Some (chatRole, acceptedValues) \<Rightarrow> chatRole
            | None \<Rightarrow> DEFAULT_CHAT_ROLE d))"

section \<open>Extraction from span attributes (playgroundUtils.ts)\<close>

definition toolCallArgs :: "deps \<Rightarrow> ToolCallAttr \<Rightarrow> json" where
  "toolCallArgs d tc =
     (case tool_call_function tc of
        None \<Rightarrow> JObj []
      | Some f \<Rightarrow>
          (case fn_arguments f of
             None \<Rightarrow> JObj []
           | Some a \<Rightarrow>
               (let parsedArguments = parsed (safelyParseJSON d a)
                in if isStringKeyedObject d parsedArguments then parsedArguments else JObj [])))"

text \<open>
  The callback of \<open>toolCalls.map\<close>: \<open>Inr None\<close> is the \<open>null\<close> that the filter
  removes, \<open>Inl Unreachable\<close> the throw of \<open>assertUnreachable\<close>.
\<close>

definition processToolCall :: "deps \<Rightarrow> ModelProvider \<Rightarrow> ToolCallEntry \<Rightarrow> error + json option" where
  "processToolCall d prov e =
     (case tool_call e of
        None \<Rightarrow> Inr None
      | Some tc \<Rightarrow>
          (let args = toolCallArgs d tc;
               i = (case tool_call_id tc of Some x \<Rightarrow> x | None \<Rightarrow> []);
               n = (case tool_call_function tc of
                      None \<Rightarrow> []
                    | Some f \<Rightarrow> (case fn_name f of Some x \<Rightarrow> x | None \<Rightarrow> []));
               openai = JObj [(''id'', JStr i),
                              (''function'', JObj [(''name'', JStr n), (''arguments'', args)])]
           in case prov of
                OPENAI \<Rightarrow> Inr (Some openai)
              | AZURE_OPENAI \<Rightarrow> Inr (Some openai)
              | ANTHROPIC \<Rightarrow>
                  Inr (Some (JObj [(''id'', JStr i), (''type'', JStr ''tool_use''),
                                   (''name'', JStr n), (''input'', args)]))
              | GEMINI \<Rightarrow> Inl Unreachable))"

text \<open>\<open>xs.map(f)\<close> where \<open>f\<close> may throw: the first throw ends the loop.\<close>

fun map_throw :: "('a \<Rightarrow> error + 'b) \<Rightarrow> 'a list \<Rightarrow> error + 'b list" where
  "map_throw f [] = Inr []"
| "map_throw f (x # xs) =
     (case f x of
        Inl e \<Rightarrow> Inl e
      | Inr y \<Rightarrow> (case map_throw f xs of Inl e \<Rightarrow> Inl e | Inr ys \<Rightarrow> Inr (y # ys)))"

definition processAttributeToolCalls ::
  "deps \<Rightarrow> ToolCallEntry list option \<Rightarrow> ModelProvider \<Rightarrow> error + json list option" where
  "processAttributeToolCalls d tcs prov =
     (case tcs of
        None \<Rightarrow> Inr None
      | Some xs \<Rightarrow>
          (case map_throw (processToolCall d prov) xs of
             Inl e \<Rightarrow> Inl e
           | Inr rs \<Rightarrow> Inr (Some (List.map_filter (\<lambda>r. r) rs))))"

text \<open>
  The functions that generate identifiers thread the counters: the result is paired
  with the counters after the call, also when the call throws.
\<close>

fun processAttributeMessagesToChatMessage ::
  "deps \<Rightarrow> MessageSchema list \<Rightarrow> ModelProvider \<Rightarrow> ids \<Rightarrow> (error + ChatMessage list) \<times> ids" where
  "processAttributeMessagesToChatMessage d [] prov st = (Inr [], st)"
| "processAttributeMessagesToChatMessage d (m # ms) prov st =
     (case generateMessageId st of (i, st1) \<Rightarrow>
        (case processAttributeToolCalls d (message_tool_calls m) prov of
           Inl e \<Rightarrow> (Inl e, st1)
         | Inr tcs \<Rightarrow>
             (case processAttributeMessagesToChatMessage d ms prov st1 of
                (Inl e, st2) \<Rightarrow> (Inl e, st2)
              | (Inr rest, st2) \<Rightarrow>
                  (Inr (\<lparr>message_id = i, role = getChatRole d (message_role m),
                         content = message_content m, toolCalls = tcs\<rparr> # rest), st2))))"

definition getTemplateMessagesFromAttributes ::
  "deps \<Rightarrow> ModelProvider \<Rightarrow> json \<Rightarrow> ids \<Rightarrow>
     (error + (ParsingError list \<times> ChatMessage list option)) \<times> ids" where
  "getTemplateMessagesFromAttributes d prov parsedAttributes st =
     (case llmInputMessageSchema d parsedAttributes of
        None \<Rightarrow> (Inr ([INPUT_MESSAGES_PARSING_ERROR], None), st)
      | Some inputMessages \<Rightarrow>
          (case processAttributeMessagesToChatMessage d inputMessages prov st of
             (Inl e, st1) \<Rightarrow> (Inl e, st1)
           | (Inr ms, st1) \<Rightarrow> (Inr ([], Some ms), st1)))"

definition getOutputFromAttributes ::
  "deps \<Rightarrow> ModelProvider \<Rightarrow> json \<Rightarrow> ids \<Rightarrow> (error + (Output \<times> ParsingError list)) \<times> ids" where
  "getOutputFromAttributes d prov parsedAttributes st =
     (case llmOutputMessageSchema d parsedAttributes of
        Some outputMessages \<Rightarrow>
          (case processAttributeMessagesToChatMessage d outputMessages prov st of
             (Inl e, st1) \<Rightarrow> (Inl e, st1)
           | (Inr ms, st1) \<Rightarrow> (Inr (OutputMessages ms, []), st1))
      | None \<Rightarrow>
          (case outputSchema d parsedAttributes of
             Some v \<Rightarrow> (Inr (OutputValue v, [] @ [OUTPUT_MESSAGES_PARSING_ERROR]), st)
           | None \<Rightarrow>
               (Inr (OutputUndefined,
                     ([] @ [OUTPUT_MESSAGES_PARSING_ERROR]) @ [OUTPUT_VALUE_PARSING_ERROR]), st)))"

text \<open>\<open>s.includes(p)\<close>: \<open>p\<close> occurs in \<open>s\<close> as a contiguous run.\<close>

fun starts_with :: "string \<Rightarrow> string \<Rightarrow> bool" where
  "starts_with s [] = True"
| "starts_with [] (c # p) = False"
| "starts_with (x # s) (c # p) = (x = c \<and> starts_with s p)"

fun str_includes :: "string \<Rightarrow> string \<Rightarrow> bool" where
  "str_includes [] p = (p = [])"
| "str_includes (x # s) p = (starts_with (x # s) p \<or> str_includes s p)"

definition getModelProviderFromModelName :: "deps \<Rightarrow> string \<Rightarrow> ModelProvider" where
  "getModelProviderFromModelName d name =
     (case find (\<lambda>(prov, prefixes). list_ex (\<lambda>prefix. str_includes name prefix) prefixes)
             (modelProviderToModelPrefixMap d) of
        Some (prov, prefixes) \<Rightarrow> prov
      | None \<Rightarrow> DEFAULT_MODEL_PROVIDER d)"

definition getBaseModelConfigFromAttributes ::
  "deps \<Rightarrow> json \<Rightarrow> ModelConfig option \<times> ParsingError list" where
  "getBaseModelConfigFromAttributes d parsedAttributes =
     (case modelConfigSchema d parsedAttributes of
        Some model_name \<Rightarrow>
          (Some \<lparr>modelName = model_name,
                 model_provider = getModelProviderFromModelName d model_name,
                 model_invocationParameters = []\<rparr>, [])
      | None \<Rightarrow> (None, [MODEL_CONFIG_PARSING_ERROR]))"

definition getModelInvocationParametersFromAttributes ::
  "deps \<Rightarrow> json \<Rightarrow> InvocationParameter list \<Rightarrow> InvocationParameterInput list \<times> ParsingError list" where
  "getModelInvocationParametersFromAttributes d parsedAttributes modelSupportedInvocationParameters =
     (let r = modelConfigWithInvocationParametersSchema d parsedAttributes;
          parsingErrors =
            (if r = None then [MODEL_CONFIG_WITH_INVOCATION_PARAMETERS_PARSING_ERROR] else [])
      in (transformInvocationParametersFromAttributesToInvocationParameterInputs
            (case r of Some m \<Rightarrow> m | None \<Rightarrow> []) modelSupportedInvocationParameters,
          parsingErrors))"

text \<open>The read \<open>data?.llm?.tools\<close>.\<close>

definition tools_of :: "LlmToolSchema option \<Rightarrow> ToolEntry option list option" where
  "tools_of data =
     (case data of
        None \<Rightarrow> None
      | Some x \<Rightarrow> (case llm x of None \<Rightarrow> None | Some l \<Rightarrow> llm_tools l))"

fun processToolEntries :: "ToolEntry option list \<Rightarrow> ids \<Rightarrow> Tool list \<times> ids" where
  "processToolEntries [] st = ([], st)"
| "processToolEntries (e # es) st =
     (case (case e of None \<Rightarrow> None | Some x \<Rightarrow> tool x) of
        None \<Rightarrow> processToolEntries es st
      | Some t \<Rightarrow>
          (case generateToolId st of (i, st1) \<Rightarrow>
             (case processToolEntries es st1 of (rest, st2) \<Rightarrow>
                (\<lparr>tool_id = i, definition_of = json_schema t\<rparr> # rest, st2))))"

definition processAttributeTools :: "LlmToolSchema option \<Rightarrow> ids \<Rightarrow> Tool list \<times> ids" where
  "processAttributeTools data st =
     processToolEntries (case tools_of data of Some es \<Rightarrow> es | None \<Rightarrow> []) st"

definition getToolsFromAttributes ::
  "deps \<Rightarrow> json \<Rightarrow> ids \<Rightarrow> (Tool list option \<times> ParsingError list) \<times> ids" where
  "getToolsFromAttributes d parsedAttributes st =
     (case llmToolSchema d parsedAttributes of
        None \<Rightarrow> ((None, [TOOLS_PARSING_ERROR]), st)
      | Some data \<Rightarrow>
          (if tools_of data = None then ((None, []), st)
           else (case processAttributeTools data st of (ts, st1) \<Rightarrow> ((Some ts, []), st1))))"

definition transformSpanAttributesToPlaygroundInstance ::
  "deps \<Rightarrow> PlaygroundSpan \<Rightarrow> ids \<Rightarrow> (error + (PlaygroundInstance \<times> ParsingError list)) \<times> ids" where
  "transformSpanAttributesToPlaygroundInstance d sp st =
     (let basePlaygroundInstance = createPlaygroundInstance d;
          r = safelyParseJSON d (attributes sp)
      in if parseError r \<noteq> None
         then (Inr (basePlaygroundInstance\<lparr>spanId := Some (span_id sp)\<rparr>,
                    [SPAN_ATTRIBUTES_PARSING_ERROR]), st)
         else
           (let parsedAttributes = parsed r;
                modelSupportedInvocationParameters = span_invocationParameters sp
            in case getBaseModelConfigFromAttributes d parsedAttributes of
                 (modelConfig, modelConfigParsingErrors) \<Rightarrow>
             (let prov = (case modelConfig of
                            Some m \<Rightarrow> model_provider m
                          | None \<Rightarrow> model_provider (model basePlaygroundInstance))
              in case getTemplateMessagesFromAttributes d prov parsedAttributes st of
                   (Inl e, st1) \<Rightarrow> (Inl e, st1)
                 | (Inr (messageParsingErrors, messages), st1) \<Rightarrow>
               (case getOutputFromAttributes d prov parsedAttributes st1 of
                   (Inl e, st2) \<Rightarrow> (Inl e, st2)
                 | (Inr (out, outputParsingErrors), st2) \<Rightarrow>
               (case getModelInvocationParametersFromAttributes d parsedAttributes
                       modelSupportedInvocationParameters of
                   (invocationParameters, invocationParametersParsingErrors) \<Rightarrow>
               (let modelConfig' =
                      map_option (\<lambda>m. m\<lparr>model_invocationParameters := invocationParameters\<rparr>)
                        modelConfig
                in case getToolsFromAttributes d parsedAttributes st2 of
                     ((tls, toolsParsingErrors), st3) \<Rightarrow>
                 (Inr (basePlaygroundInstance
                         \<lparr>model := (case modelConfig' of
                                      Some m \<Rightarrow> m
                                    | None \<Rightarrow> model basePlaygroundInstance),
                          template := (case messages of
                                         Some ms \<Rightarrow> Chat ms
                                       | None \<Rightarrow> template basePlaygroundInstance),
                          output_value := out,
                          spanId := Some (span_id sp),
                          tools := (case tls of
                                      Some ts \<Rightarrow> ts
                                    | None \<Rightarrow> tools basePlaygroundInstance)\<rparr>,
                       messageParsingErrors @ outputParsingErrors @ modelConfigParsingErrors @
                       toolsParsingErrors @ invocationParametersParsingErrors), st3)))))))"

section \<open>Schemas and constants modelled from the specification\<close>

text \<open>Every element of a list must validate for the list to validate.\<close>

fun all_some :: "'a option list \<Rightarrow> 'a list option" where
  "all_some [] = Some []"
| "all_some (x # xs) =
     (case x of
        None \<Rightarrow> None
      | Some y \<Rightarrow> (case all_some xs of None \<Rightarrow> None | Some ys \<Rightarrow> Some (y # ys)))"

text \<open>An optional text field: absent, or a string; any other value is a mismatch.\<close>

definition opt_text :: "json \<Rightarrow> string option option" where
  "opt_text v = (case v of JUndefined \<Rightarrow> Some None | JStr s \<Rightarrow> Some (Some s) | _ \<Rightarrow> None)"

text \<open>
  Modelled from the spec: \<open>llmToolSchema\<close> of \<open>./schemas\<close>, which is not among the
  sources.  The spec has it validate an \<open>llm.tools\<close> shape, an ordered list of
  \<open>{tool: {json_schema}}\<close>, where the absence of the \<open>llm.tools\<close> path is not an
  error.  So the attributes are an object whose \<open>llm\<close>, when present, is an object
  whose \<open>tools\<close>, when present, is a list of objects that each hold a \<open>tool\<close> object
  with a \<open>json_schema\<close>.
\<close>

definition spec_toolEntry :: "json \<Rightarrow> ToolEntry option option" where
  "spec_toolEntry v =
     (case field ''tool'' v of
        JObj t \<Rightarrow>
          (if field ''json_schema'' (JObj t) = JUndefined then None
           else Some (Some (ToolEntry (Some (ToolAttr (field ''json_schema'' (JObj t)))))))
      | _ \<Rightarrow> None)"

text \<open>
  Modelled from the spec: \<open>llmToolSchema\<close>, on the whole attributes; an element of the
  list is validated by \<open>spec_toolEntry\<close>.
\<close>

definition spec_llmToolSchema :: "json \<Rightarrow> LlmToolSchema option option" where
  "spec_llmToolSchema attrs =
     (case attrs of
        JObj kvs \<Rightarrow>
          (case field ''llm'' attrs of
             JUndefined \<Rightarrow> Some (Some (LlmToolSchema None))
           | JObj l \<Rightarrow>
               (case field ''tools'' (JObj l) of
                  JUndefined \<Rightarrow> Some (Some (LlmToolSchema (Some (LlmAttr None))))
                | JArr ts \<Rightarrow>
                    (case all_some (map spec_toolEntry ts) of
                       None \<Rightarrow> None
                     | Some es \<Rightarrow> Some (Some (LlmToolSchema (Some (LlmAttr (Some es))))))
                | _ \<Rightarrow> None)
           | _ \<Rightarrow> None)
      | _ \<Rightarrow> None)"

text \<open>
  Modelled from the spec: \<open>llmInputMessageSchema\<close> and \<open>llmOutputMessageSchema\<close> of
  \<open>./schemas\<close>, which is not among the sources.  The spec has them validate an
  ordered list of \<open>{message: {role, content, tool_calls}}\<close> under \<open>llm.input_messages\<close>
  and \<open>llm.output_messages\<close>, with \<open>role\<close> a text, \<open>content\<close> an optional text and
  \<open>tool_calls\<close> an optional list of \<open>{tool_call: {id, function: {name, arguments}}}\<close>
  whose \<open>arguments\<close> are text.  The parts that \<open>processAttributeToolCalls\<close> reads
  with a default (\<open>tool_call\<close>, \<open>id\<close>, \<open>function\<close>, \<open>name\<close>, \<open>arguments\<close>) may
  be absent.
\<close>

text \<open>Modelled from the spec: the \<open>function\<close> of a tool call, \<open>{name, arguments}\<close>.\<close>

definition spec_function :: "json \<Rightarrow> FunctionAttr option option" where
  "spec_function v =
     (case v of
        JUndefined \<Rightarrow> Some None
      | JObj f \<Rightarrow>
          (case (opt_text (field ''name'' v), opt_text (field ''arguments'' v)) of
             (Some n, Some a) \<Rightarrow> Some (Some (FunctionAttr n a))
           | _ \<Rightarrow> None)
      | _ \<Rightarrow> None)"

text \<open>Modelled from the spec: an element of \<open>tool_calls\<close>, \<open>{tool_call: {id, function}}\<close>.\<close>

definition spec_toolCall :: "json \<Rightarrow> ToolCallEntry option" where
  "spec_toolCall v =
     (case v of
        JObj e \<Rightarrow>
          (case field ''tool_call'' v of
             JUndefined \<Rightarrow> Some (ToolCallEntry None)
           | JObj tc \<Rightarrow>
               (case (opt_text (field ''id'' (JObj tc)), spec_function (field ''function'' (JObj tc))) of
                  (Some i, Some f) \<Rightarrow> Some (ToolCallEntry (Some (ToolCallAttr i f)))
                | _ \<Rightarrow> None)
           | _ \<Rightarrow> None)
      | _ \<Rightarrow> None)"

text \<open>Modelled from the spec: the optional list \<open>tool_calls\<close>.\<close>

definition spec_toolCalls :: "json \<Rightarrow> ToolCallEntry list option option" where
  "spec_toolCalls v =
     (case v of
        JUndefined \<Rightarrow> Some None
      | JArr tcs \<Rightarrow>
          (case all_some (map spec_toolCall tcs) of None \<Rightarrow> None | Some xs \<Rightarrow> Some (Some xs))
      | _ \<Rightarrow> None)"

text \<open>Modelled from the spec: an element of the list, \<open>{message: {role, content, tool_calls}}\<close>.\<close>

definition spec_message :: "json \<Rightarrow> MessageSchema option" where
  "spec_message v =
     (case field ''message'' v of
        JObj m \<Rightarrow>
          (case (field ''role'' (JObj m), opt_text (field ''content'' (JObj m)),
                 spec_toolCalls (field ''tool_calls'' (JObj m))) of
             (JStr r, Some c, Some tcs) \<Rightarrow> Some (MessageSchema r c tcs)
           | _ \<Rightarrow> None)
      | _ \<Rightarrow> None)"

text \<open>Modelled from the spec: the list of messages under \<open>llm.<key>\<close>.\<close>

definition spec_llmMessagesSchema :: "string \<Rightarrow> json \<Rightarrow> MessageSchema list option" where
  "spec_llmMessagesSchema key attrs =
     (case field key (field ''llm'' attrs) of
        JArr ms \<Rightarrow> all_some (map spec_message ms)
      | _ \<Rightarrow> None)"

text \<open>Modelled from the spec: \<open>llmInputMessageSchema\<close>, the messages under \<open>llm.input_messages\<close>.\<close>

definition spec_llmInputMessageSchema :: "json \<Rightarrow> MessageSchema list option" where
  "spec_llmInputMessageSchema = spec_llmMessagesSchema ''input_messages''"

text \<open>Modelled from the spec: \<open>llmOutputMessageSchema\<close>, the messages under \<open>llm.output_messages\<close>.\<close>

definition spec_llmOutputMessageSchema :: "json \<Rightarrow> MessageSchema list option" where
  "spec_llmOutputMessageSchema = spec_llmMessagesSchema ''output_messages''"

text \<open>
  Modelled from the spec: \<open>outputSchema\<close> of \<open>./schemas\<close>, which is not among the
  sources.  The spec has it validate a free-form \<open>output.value\<close>, and the output of
  the canonical instance is a text.
\<close>

definition spec_outputSchema :: "json \<Rightarrow> string option" where
  "spec_outputSchema attrs =
     (case field ''value'' (field ''output'' attrs) of JStr s \<Rightarrow> Some s | _ \<Rightarrow> None)"

text \<open>
  Modelled from the spec: the role enum, \<open>ChatRoleMap\<close> and \<open>DEFAULT_CHAT_ROLE\<close> of
  the constants modules, which are not among the sources.  The spec names the roles
  system, user, assistant and tool, has the alias table resolve \<open>ai\<close> to the assistant
  role, and has a fixed default role; here the default is the user role.
\<close>

definition spec_chatMessageRoles :: "string list" where
  "spec_chatMessageRoles = [''system'', ''user'', ''assistant'', ''tool'']"

text \<open>Modelled from the spec: \<open>ChatRoleMap\<close>, with the one alias the spec gives.\<close>

definition spec_ChatRoleMap :: "(string \<times> string list) list" where
  "spec_ChatRoleMap = [(''assistant'', [''ai''])]"

text \<open>Modelled from the spec: \<open>DEFAULT_CHAT_ROLE\<close>, a fixed member of the enum.\<close>

definition spec_DEFAULT_CHAT_ROLE :: string where
  "spec_DEFAULT_CHAT_ROLE = ''user''"

text \<open>
  An instance of the parameter, to run the functions on concrete inputs.  The schemas
  and the role constants are the ones above.  \<open>safelyParseJSON\<close> is \<open>JSON.parse\<close> on
  the texts of a finite table and a parse error elsewhere; the table holds the texts
  the examples use.
\<close>

definition example_safelyParseJSON :: "string \<Rightarrow> JSONParseResult" where
  "example_safelyParseJSON s =
     (case map_of [(''{}'', JObj []), (''null'', JNull)] s of
        Some v \<Rightarrow> JSONParseResult v None
      | None \<Rightarrow> JSONParseResult JNull (Some ''SyntaxError''))"

definition example_instance :: PlaygroundInstance where
  "example_instance =
     \<lparr>model = \<lparr>modelName = ''gpt-4o'', model_provider = OPENAI, model_invocationParameters = []\<rparr>,
      template = Chat [],
      output_value = OutputUndefined,
      spanId = None,
      tools = []\<rparr>"

definition example_deps :: deps where
  "example_deps =
     \<lparr>safelyParseJSON = example_safelyParseJSON,
      isStringKeyedObject = (\<lambda>v. case v of JObj kvs \<Rightarrow> True | _ \<Rightarrow> False),
      chatMessageRoles = spec_chatMessageRoles,
      ChatRoleMap = spec_ChatRoleMap,
      DEFAULT_CHAT_ROLE = spec_DEFAULT_CHAT_ROLE,
      modelProviderToModelPrefixMap = [(OPENAI, [''gpt'']), (ANTHROPIC, [''claude''])],
      DEFAULT_MODEL_PROVIDER = OPENAI,
      llmInputMessageSchema = spec_llmInputMessageSchema,
      llmOutputMessageSchema = spec_llmOutputMessageSchema,
      outputSchema = spec_outputSchema,
      modelConfigSchema =
        (\<lambda>attrs. case field ''model_name'' (field ''llm'' attrs) of
                    JStr s \<Rightarrow> Some s | _ \<Rightarrow> None),
      modelConfigWithInvocationParametersSchema =
        (\<lambda>attrs. case field ''invocation_parameters'' (field ''llm'' attrs) of
                    JObj m \<Rightarrow> Some m | _ \<Rightarrow> None),
      llmToolSchema = spec_llmToolSchema,
      createPlaygroundInstance = example_instance\<rparr>"

section \<open>Reconciliation as the specification words it\<close>

text \<open>
  For each entry of the raw map, the first definition whose canonical name or
  invocation name is equal to the key under \<open>eq\<close>; nothing when there is none or when
  it lacks an input field or an invocation name; otherwise the input
  \<open>{canonicalName, invocationName, <camelCased input field>: value}\<close>.
\<close>

definition reconcile_entry ::
  "(string nullish \<Rightarrow> string \<Rightarrow> bool) \<Rightarrow> InvocationParameter list \<Rightarrow> string \<times> json \<Rightarrow>
     InvocationParameterInput list" where
  "reconcile_entry eq defs entry =
     (case entry of (key, val) \<Rightarrow>
        (case find (\<lambda>mp. eq (canonicalName mp) key \<or> eq (invocationName mp) key) defs of
           None \<Rightarrow> []
         | Some mp \<Rightarrow>
             (case (invocationInputField mp, invocationName mp) of
                (Defined fld, Defined nm) \<Rightarrow>
                  [set_prop (toCamelCase fld) val
                     [(''canonicalName'', json_of_nullish (canonicalName mp)),
                      (''invocationName'', JStr nm)]]
              | _ \<Rightarrow> [])))"

definition reconcile_by ::
  "(string nullish \<Rightarrow> string \<Rightarrow> bool) \<Rightarrow> (string \<times> json) list \<Rightarrow> InvocationParameter list \<Rightarrow>
     InvocationParameterInput list" where
  "reconcile_by eq raw defs = concat (map (reconcile_entry eq defs) raw)"

text \<open>A name that is present and equal to the key up to the case of its letters.\<close>

definition equals_ci :: "string nullish \<Rightarrow> string \<Rightarrow> bool" where
  "equals_ci x key = (case x of Defined s \<Rightarrow> toLowerCase s = toLowerCase key | _ \<Rightarrow> False)"

text \<open>The same, for a name that is not the empty string.\<close>

definition nonempty_equals_ci :: "string nullish \<Rightarrow> string \<Rightarrow> bool" where
  "nonempty_equals_ci x key =
     (case x of Defined s \<Rightarrow> s \<noteq> [] \<and> toLowerCase s = toLowerCase key | _ \<Rightarrow> False)"

section \<open>The \<open>llm.tools\<close> path of the attributes\<close>

text \<open>
  The path is absent when the attributes are an object that has no \<open>llm\<close>, or whose
  \<open>llm\<close> is an object that has no \<open>tools\<close>.
\<close>

definition llm_tools_absent :: "json \<Rightarrow> bool" where
  "llm_tools_absent attrs =
     (case attrs of
        JObj kvs \<Rightarrow>
          (case field ''llm'' attrs of
             JUndefined \<Rightarrow> True
           | JObj l \<Rightarrow> field ''tools'' (JObj l) = JUndefined
           | _ \<Rightarrow> False)
      | _ \<Rightarrow> False)"

text \<open>
  The path is present with the value \<open>t\<close> when the attributes are an object whose
  \<open>llm\<close> is an object whose \<open>tools\<close> is \<open>t\<close>.
\<close>

definition llm_tools_present :: "json \<Rightarrow> json \<Rightarrow> bool" where
  "llm_tools_present attrs t =
     (case attrs of
        JObj kvs \<Rightarrow>
          (case field ''llm'' attrs of
             JObj l \<Rightarrow> t \<noteq> JUndefined \<and> field ''tools'' (JObj l) = t
           | _ \<Rightarrow> False)
      | _ \<Rightarrow> False)"

text \<open>The shape of \<open>llm.tools\<close>: a list whose every element is \<open>{tool: {json_schema}}\<close>.\<close>

definition tools_shape :: "json \<Rightarrow> bool" where
  "tools_shape t =
     (case t of JArr ts \<Rightarrow> list_all (\<lambda>e. spec_toolEntry e \<noteq> None) ts | _ \<Rightarrow> False)"

section \<open>Objects\<close>

lemmas object_defs = js_object_def merge_object_def set_prop_def array_index_def digit_of_def

lemmas zod_defs = z_object_def field_def has_key_def z_string_def z_literal_def
  z_record_unknown_def parse_def

lemma map_of_replace_prop:
  "k \<in> set (map fst kvs) \<Longrightarrow>
     map_of (replace_prop k v kvs) k' = (if k' = k then Some v else map_of kvs k')"
proof (induction kvs)
  case Nil
  then show ?case by simp
next
  case (Cons p kvs)
  obtain k0 v0 where p: "p = (k0, v0)" by (cases p)
  show ?case
  proof (cases "k0 = k")
    case True
    then show ?thesis by (simp add: p)
  next
    case False
    with Cons.prems have "k \<in> set (map fst kvs)" by (simp add: p)
    from Cons.IH[OF this] False show ?thesis by (auto simp add: p split: if_splits)
  qed
qed

lemma map_of_insert_index:
  "k \<notin> set (map fst kvs) \<Longrightarrow>
     map_of (insert_index n k v kvs) k' = (if k' = k then Some v else map_of kvs k')"
  by (induction kvs) (auto split: option.splits)

lemma map_of_set_prop:
  "map_of (set_prop k v kvs) k' = (if k' = k then Some v else map_of kvs k')"
proof (cases "k \<in> set (map fst kvs)")
  case True
  then show ?thesis
    by (simp add: set_prop_def map_of_replace_prop)
next
  case False
  then have "map_of kvs k = None"
    by (simp add: map_of_eq_None_iff)
  with False show ?thesis
    by (auto simp add: set_prop_def map_of_insert_index map_add_def split: option.splits)
qed

lemma map_of_foldl_set_prop:
  "map_of (foldl (\<lambda>obj (k, v). set_prop k v obj) acc ps) k =
     (case map_of (rev ps) k of Some v \<Rightarrow> Some v | None \<Rightarrow> map_of acc k)"
proof (induction ps arbitrary: acc)
  case Nil
  then show ?case by simp
next
  case (Cons p ps)
  obtain k' v' where p: "p = (k', v')" by (cases p)
  show ?case
    by (simp add: p Cons.IH map_of_set_prop map_add_def split: option.splits)
qed

lemma map_of_js_object: "map_of (js_object ps) k = map_of (rev ps) k"
  by (simp add: js_object_def map_of_foldl_set_prop split: option.splits)

lemma merge_object_id:
  assumes "''__proto__'' \<notin> set (map fst a)" and "js_object a = a"
  shows "merge_object a = a"
proof -
  have "filter (\<lambda>(k, v). k \<noteq> ''__proto__'') a = a"
    using assms(1) by (induction a) auto
  with assms(2) show ?thesis
    by (simp add: merge_object_def)
qed

section \<open>Tool calls: detection and conversion\<close>

lemma merge_object_tool_call_shapes:
  "merge_object [(''id'', x), (''function'', y)] = [(''id'', x), (''function'', y)]"
  "merge_object [(''id'', x), (''type'', t), (''name'', y), (''input'', z)] =
     [(''id'', x), (''type'', t), (''name'', y), (''input'', z)]"
  by (simp_all add: object_defs)

lemma map_of_rev_filter_excluded:
  "\<forall>v. \<not> P (k, v) \<Longrightarrow> map_of (rev (filter P xs)) k = None"
  by (auto simp add: map_of_eq_None_iff)

lemma map_of_merge_object:
  "map_of (merge_object ps) k = (if k = ''__proto__'' then None else map_of (rev ps) k)"
proof -
  have "map_of (filter (\<lambda>(k, v). k \<noteq> ''__proto__'') xs) k =
      (if k = ''__proto__'' then None else map_of xs k)" for xs :: "(string \<times> json) list"
    by (induction xs) auto
  then show ?thesis
    by (simp add: merge_object_def map_of_js_object rev_filter)
qed

lemma function_object_fields:
  "field ''name'' (JObj (merge_object ([(''name'', n), (''arguments'', a)] @
      filter (\<lambda>(k, v). k \<notin> set [''name'', ''arguments''] \<and> v \<noteq> JUndefined) f))) = n"
  "field ''arguments'' (JObj (merge_object ([(''name'', n), (''arguments'', a)] @
      filter (\<lambda>(k, v). k \<notin> set [''name'', ''arguments''] \<and> v \<noteq> JUndefined) f))) = a"
proof -
  have "map_of (rev (filter (\<lambda>(k, v). k \<notin> set [''name'', ''arguments''] \<and> v \<noteq> JUndefined) f)) k = None"
    if "k \<in> set [''name'', ''arguments'']" for k
    using that by (intro map_of_rev_filter_excluded) auto
  then show
    "field ''name'' (JObj (merge_object ([(''name'', n), (''arguments'', a)] @
      filter (\<lambda>(k, v). k \<notin> set [''name'', ''arguments''] \<and> v \<noteq> JUndefined) f))) = n"
    "field ''arguments'' (JObj (merge_object ([(''name'', n), (''arguments'', a)] @
      filter (\<lambda>(k, v). k \<notin> set [''name'', ''arguments''] \<and> v \<noteq> JUndefined) f))) = a"
    by (simp_all add: field_def map_of_merge_object map_add_def)
qed

lemma openAIToolCallSchema_accepts:
  assumes "field ''id'' tc = JStr i"
    and "field ''function'' tc = JObj f"
    and "field ''name'' (JObj f) = JStr n"
    and "field ''arguments'' (JObj f) = JObj a"
  shows "openAIToolCallSchema tc =
    Some (JObj [(''id'', JStr i),
      (''function'', JObj (merge_object ([(''name'', JStr n), (''arguments'', JObj (merge_object a))] @
         filter (\<lambda>(k, v). k \<notin> set [''name'', ''arguments''] \<and> v \<noteq> JUndefined) f)))])"
  using assms
  by (cases tc)
    (auto simp add: openAIToolCallSchema_def zod_defs merge_object_tool_call_shapes
      split: option.splits)

lemma fromOpenAI_anthropic:
  assumes "field ''id'' tc = JStr i"
    and "field ''function'' tc = JObj f"
    and "field ''name'' (JObj f) = JStr n"
    and "field ''arguments'' (JObj f) = JObj a"
  shows "fromOpenAIToolCall tc ANTHROPIC =
    Inr (JObj [(''id'', JStr i), (''type'', JStr ''tool_use''), (''name'', JStr n),
         (''input'', JObj (merge_object a))])"
proof -
  let ?out = "merge_object ([(''name'', JStr n), (''arguments'', JObj (merge_object a))] @
         filter (\<lambda>(k, v). k \<notin> set [''name'', ''arguments''] \<and> v \<noteq> JUndefined) f)"
  let ?d = "JObj [(''id'', JStr i), (''function'', JObj ?out)]"
  have d: "openAIToolCallSchema tc = Some ?d"
    using assms by (rule openAIToolCallSchema_accepts)
  have f: "field ''function'' ?d = JObj ?out" and i: "field ''id'' ?d = JStr i"
    by (simp_all add: field_def)
  have "openAIToAnthropic ?d =
    Inr (JObj [(''id'', JStr i), (''type'', JStr ''tool_use''), (''name'', JStr n),
         (''input'', JObj (merge_object a))])"
    unfolding openAIToAnthropic_def f i Let_def function_object_fields by simp
  with d show ?thesis
    by (simp add: fromOpenAIToolCall_def openAIToolCallToAnthropic_def parse_def)
qed

lemma toOpenAI_of_anthropic:
  assumes "merge_object a = a"
  shows "toOpenAIToolCall (JObj [(''id'', JStr i), (''type'', JStr ''tool_use''),
       (''name'', JStr n), (''input'', JObj a)]) =
   Inr (Some (JObj [(''id'', JStr i),
      (''function'', JObj [(''name'', JStr n), (''arguments'', JObj a)])]))"
  by (simp add: toOpenAIToolCall_def detectToolCallProvider_def openAIToolCallSchema_def
      anthropicToolCallSchema_def anthropicToolCallToOpenAI_def anthropicToOpenAI_def zod_defs
      merge_object_tool_call_shapes assms)

lemma fromOpenAI_string_arguments:
  "field ''arguments'' (field ''function'' tc) = JStr s \<Longrightarrow>
     fromOpenAIToolCall tc ANTHROPIC = Inl ZodError"
  by (cases tc)
    (auto simp add: fromOpenAIToolCall_def openAIToolCallToAnthropic_def
      openAIToolCallSchema_def zod_defs split: option.splits json.splits)

text \<open>
  Claim C1, as amended.  An OpenAI tool call whose \<open>function.arguments\<close> is a map with
  no own key \<open>__proto__\<close>, converted to the Anthropic dialect by \<open>fromOpenAIToolCall\<close>
  and back by \<open>toOpenAIToolCall\<close>, comes again with the \<open>id\<close>, the \<open>function.name\<close>
  and the \<open>function.arguments\<close> it had.  Both conversions succeed.  The arguments are the
  property list of an object: building an object from them gives them again.
\<close>

theorem tool_call_round_trip:
  assumes "field ''id'' tc = JStr i"
    and "field ''function'' tc = JObj f"
    and "field ''name'' (JObj f) = JStr n"
    and "field ''arguments'' (JObj f) = JObj a"
    and "''__proto__'' \<notin> set (map fst a)"
    and "js_object a = a"
  shows "\<exists>anthropic openai.
    fromOpenAIToolCall tc ANTHROPIC = Inr anthropic \<and>
    toOpenAIToolCall anthropic = Inr (Some openai) \<and>
    field ''id'' openai = field ''id'' tc \<and>
    field ''name'' (field ''function'' openai) = field ''name'' (field ''function'' tc) \<and>
    field ''arguments'' (field ''function'' openai) = field ''arguments'' (field ''function'' tc)"
proof -
  let ?anthropic = "JObj [(''id'', JStr i), (''type'', JStr ''tool_use''), (''name'', JStr n),
         (''input'', JObj a)]"
  let ?openai = "JObj [(''id'', JStr i),
      (''function'', JObj [(''name'', JStr n), (''arguments'', JObj a)])]"
  have m: "merge_object a = a"
    using assms(5,6) by (rule merge_object_id)
  have 1: "fromOpenAIToolCall tc ANTHROPIC = Inr ?anthropic"
    using fromOpenAI_anthropic[OF assms(1-4)] by (simp add: m)
  have 2: "toOpenAIToolCall ?anthropic = Inr (Some ?openai)"
    using m by (rule toOpenAI_of_anthropic)
  have 3: "field ''id'' ?openai = field ''id'' tc"
    using assms(1) by (simp add: field_def)
  have 4: "field ''name'' (field ''function'' ?openai) = field ''name'' (field ''function'' tc)"
    using assms(2,3) by (simp add: field_def)
  have 5: "field ''arguments'' (field ''function'' ?openai) =
      field ''arguments'' (field ''function'' tc)"
    using assms(2,4) by (simp add: field_def)
  from 1 2 3 4 5 show ?thesis by blast
qed

text \<open>The round trip on the tool call of the source's own example.\<close>

theorem tool_call_round_trip_witness:
  "field ''id'' (JObj [(''id'', JStr ''1''), (''function'',
      JObj [(''name'', JStr ''getCurrentWeather''),
            (''arguments'', JObj [(''city'', JStr ''San Francisco'')])])]) = JStr ''1'' \<and>
   ''__proto__'' \<notin> set (map fst [(''city'', JStr ''San Francisco'')]) \<and>
   js_object [(''city'', JStr ''San Francisco'')] = [(''city'', JStr ''San Francisco'')] \<and>
   (\<exists>anthropic openai.
    fromOpenAIToolCall (JObj [(''id'', JStr ''1''), (''function'',
      JObj [(''name'', JStr ''getCurrentWeather''),
            (''arguments'', JObj [(''city'', JStr ''San Francisco'')])])]) ANTHROPIC =
      Inr anthropic \<and>
    toOpenAIToolCall anthropic = Inr (Some openai) \<and>
    field ''id'' openai = JStr ''1'' \<and>
    field ''name'' (field ''function'' openai) = JStr ''getCurrentWeather'' \<and>
    field ''arguments'' (field ''function'' openai) = JObj [(''city'', JStr ''San Francisco'')])"
proof -
  let ?a = "[(''city'', JStr ''San Francisco'')]"
  let ?f = "[(''name'', JStr ''getCurrentWeather''), (''arguments'', JObj ?a)]"
  let ?tc = "JObj [(''id'', JStr ''1''), (''function'', JObj ?f)]"
  have h1: "field ''id'' ?tc = JStr ''1''"
    and h2: "field ''function'' ?tc = JObj ?f"
    and h3: "field ''name'' (JObj ?f) = JStr ''getCurrentWeather''"
    and h4: "field ''arguments'' (JObj ?f) = JObj ?a"
    by (simp_all add: field_def)
  have h5: "''__proto__'' \<notin> set (map fst ?a)"
    by simp
  have h6: "js_object ?a = ?a"
    by (simp add: object_defs)
  from tool_call_round_trip[OF h1 h2 h3 h4 h5 h6] h1 h2 h3 h4 h5 h6
  show ?thesis by simp
qed

text \<open>
  Claim C1 as first stated fails on arguments with an own key \<open>__proto__\<close>, which
  \<open>JSON.parse\<close> creates from \<open>{"__proto__": "x", "a": "b"}\<close>: the record schema leaves
  the key out, so the arguments that come again are \<open>{"a": "b"}\<close>.
\<close>

theorem tool_call_round_trip_counterexample:
  "fromOpenAIToolCall
     (JObj [(''id'', JStr ''1''), (''function'',
        JObj [(''name'', JStr ''f''),
              (''arguments'', JObj [(''__proto__'', JStr ''x''), (''a'', JStr ''b'')])])])
     ANTHROPIC =
     Inr (JObj [(''id'', JStr ''1''), (''type'', JStr ''tool_use''), (''name'', JStr ''f''),
                (''input'', JObj [(''a'', JStr ''b'')])]) \<and>
   toOpenAIToolCall
     (JObj [(''id'', JStr ''1''), (''type'', JStr ''tool_use''), (''name'', JStr ''f''),
            (''input'', JObj [(''a'', JStr ''b'')])]) =
     Inr (Some (JObj [(''id'', JStr ''1''),
       (''function'', JObj [(''name'', JStr ''f''), (''arguments'', JObj [(''a'', JStr ''b'')])])])) \<and>
   JObj [(''a'', JStr ''b'')] \<noteq> JObj [(''__proto__'', JStr ''x''), (''a'', JStr ''b'')]"
proof -
  let ?a = "[(''__proto__'', JStr ''x''), (''a'', JStr ''b'')]"
  let ?f = "[(''name'', JStr ''f''), (''arguments'', JObj ?a)]"
  let ?tc = "JObj [(''id'', JStr ''1''), (''function'', JObj ?f)]"
  have m: "merge_object ?a = [(''a'', JStr ''b'')]"
    and m': "merge_object [(''a'', JStr ''b'')] = [(''a'', JStr ''b'')]"
    by (simp_all add: object_defs)
  have h: "field ''id'' ?tc = JStr ''1''" "field ''function'' ?tc = JObj ?f"
    "field ''name'' (JObj ?f) = JStr ''f''" "field ''arguments'' (JObj ?f) = JObj ?a"
    by (simp_all add: field_def)
  have 1: "fromOpenAIToolCall ?tc ANTHROPIC =
     Inr (JObj [(''id'', JStr ''1''), (''type'', JStr ''tool_use''), (''name'', JStr ''f''),
                (''input'', JObj [(''a'', JStr ''b'')])])"
    using fromOpenAI_anthropic[OF h] by (simp add: m)
  from 1 toOpenAI_of_anthropic[OF m'] show ?thesis by simp
qed

text \<open>
  Claim C2.  The claim has the validated value hold the declared fields only.  The
  comment on \<open>openAIToolCallSchema\<close> says the same of the nested \<open>passthrough\<close>.
  The schemas do otherwise: \<open>anthropicToolCallSchema\<close> is a passthrough object, and so is
  the \<open>function\<close> object of \<open>openAIToolCallSchema\<close>.  Detection returns an extra key
  at the top level of an Anthropic tool call, and an extra key inside the \<open>function\<close>
  object of an OpenAI tool call; only the extra key at the top level of the OpenAI tool
  call is dropped.
\<close>

theorem detect_keeps_passthrough_keys:
  "detectToolCallProvider
     (JObj [(''id'', JStr ''1''), (''type'', JStr ''tool_use''), (''name'', JStr ''f''),
            (''input'', JObj []), (''extra'', JNum 1)]) =
     \<lparr>provider = TC_ANTHROPIC,
      validatedToolCall =
        Some (JObj [(''id'', JStr ''1''), (''type'', JStr ''tool_use''), (''name'', JStr ''f''),
                    (''input'', JObj []), (''extra'', JNum 1)])\<rparr> \<and>
   detectToolCallProvider
     (JObj [(''id'', JStr ''1''),
            (''function'', JObj [(''name'', JStr ''f''), (''arguments'', JObj []),
                                 (''extra'', JNum 1)]),
            (''top'', JNum 2)]) =
     \<lparr>provider = TC_OPENAI,
      validatedToolCall =
        Some (JObj [(''id'', JStr ''1''),
                    (''function'', JObj [(''name'', JStr ''f''), (''arguments'', JObj []),
                                         (''extra'', JNum 1)])])\<rparr>"
  by (simp add: detectToolCallProvider_def openAIToolCallSchema_def anthropicToolCallSchema_def
      zod_defs object_defs)

text \<open>
  Claim C5.  Detection tries the OpenAI schema first and tags every match of it
  \<open>OPENAI\<close>, also when the Anthropic schema would match too; then the Anthropic schema,
  which only a value with \<open>type = "tool_use"\<close> matches; a value that neither schema
  matches is \<open>UNKNOWN\<close> with no validated value.  The tag is never \<open>AZURE_OPENAI\<close>.
\<close>

theorem detect_priority_order:
  "(\<forall>data. openAIToolCallSchema v = Some data \<longrightarrow>
      detectToolCallProvider v = \<lparr>provider = TC_OPENAI, validatedToolCall = Some data\<rparr>) \<and>
   (\<forall>data. openAIToolCallSchema v = None \<and> anthropicToolCallSchema v = Some data \<longrightarrow>
      detectToolCallProvider v = \<lparr>provider = TC_ANTHROPIC, validatedToolCall = Some data\<rparr>) \<and>
   (openAIToolCallSchema v = None \<and> anthropicToolCallSchema v = None \<longrightarrow>
      detectToolCallProvider v = \<lparr>provider = TC_UNKNOWN, validatedToolCall = None\<rparr>) \<and>
   (anthropicToolCallSchema v \<noteq> None \<longrightarrow> field ''type'' v = JStr ''tool_use'') \<and>
   provider (detectToolCallProvider v) \<noteq> TC_AZURE_OPENAI"
proof -
  have "field ''type'' v = JStr ''tool_use''" if "anthropicToolCallSchema v \<noteq> None"
    using that
    by (cases v)
      (auto simp add: anthropicToolCallSchema_def zod_defs split: option.splits if_splits)
  then show ?thesis
    by (auto simp add: detectToolCallProvider_def split: option.splits)
qed

text \<open>
  A value that both schemas match, a value that only the Anthropic schema matches, and a
  value that neither matches.
\<close>

theorem detect_priority_order_witness:
  "openAIToolCallSchema
     (JObj [(''id'', JStr ''1''), (''type'', JStr ''tool_use''), (''name'', JStr ''f''),
            (''input'', JObj []),
            (''function'', JObj [(''name'', JStr ''g''), (''arguments'', JObj [])])]) =
     Some (JObj [(''id'', JStr ''1''),
                 (''function'', JObj [(''name'', JStr ''g''), (''arguments'', JObj [])])]) \<and>
   anthropicToolCallSchema
     (JObj [(''id'', JStr ''1''), (''type'', JStr ''tool_use''), (''name'', JStr ''f''),
            (''input'', JObj []),
            (''function'', JObj [(''name'', JStr ''g''), (''arguments'', JObj [])])]) \<noteq> None \<and>
   detectToolCallProvider
     (JObj [(''id'', JStr ''1''), (''type'', JStr ''tool_use''), (''name'', JStr ''f''),
            (''input'', JObj []),
            (''function'', JObj [(''name'', JStr ''g''), (''arguments'', JObj [])])]) =
     \<lparr>provider = TC_OPENAI,
      validatedToolCall = Some (JObj [(''id'', JStr ''1''),
                 (''function'', JObj [(''name'', JStr ''g''), (''arguments'', JObj [])])])\<rparr> \<and>
   openAIToolCallSchema
     (JObj [(''id'', JStr ''1''), (''type'', JStr ''tool_use''), (''name'', JStr ''f''),
            (''input'', JObj [])]) = None \<and>
   detectToolCallProvider
     (JObj [(''id'', JStr ''1''), (''type'', JStr ''tool_use''), (''name'', JStr ''f''),
            (''input'', JObj [])]) =
     \<lparr>provider = TC_ANTHROPIC,
      validatedToolCall = Some (JObj [(''id'', JStr ''1''), (''type'', JStr ''tool_use''),
            (''name'', JStr ''f''), (''input'', JObj [])])\<rparr> \<and>
   openAIToolCallSchema (JStr ''tool'') = None \<and>
   anthropicToolCallSchema (JStr ''tool'') = None \<and>
   detectToolCallProvider (JStr ''tool'') = \<lparr>provider = TC_UNKNOWN, validatedToolCall = None\<rparr>"
proof -
  let ?both = "JObj [(''id'', JStr ''1''), (''type'', JStr ''tool_use''), (''name'', JStr ''f''),
            (''input'', JObj []),
            (''function'', JObj [(''name'', JStr ''g''), (''arguments'', JObj [])])]"
  let ?anth = "JObj [(''id'', JStr ''1''), (''type'', JStr ''tool_use''), (''name'', JStr ''f''),
            (''input'', JObj [])]"
  have b1: "openAIToolCallSchema ?both =
     Some (JObj [(''id'', JStr ''1''),
                 (''function'', JObj [(''name'', JStr ''g''), (''arguments'', JObj [])])])"
    by (simp add: openAIToolCallSchema_def zod_defs object_defs)
  have b2: "anthropicToolCallSchema ?both \<noteq> None"
    by (simp add: anthropicToolCallSchema_def zod_defs object_defs)
  have a1: "openAIToolCallSchema ?anth = None"
    by (simp add: openAIToolCallSchema_def zod_defs object_defs)
  have a2: "anthropicToolCallSchema ?anth = Some ?anth"
    by (simp add: anthropicToolCallSchema_def zod_defs object_defs)
  have u1: "openAIToolCallSchema (JStr ''tool'') = None"
    by (simp add: openAIToolCallSchema_def zod_defs object_defs)
  have u2: "anthropicToolCallSchema (JStr ''tool'') = None"
    by (simp add: anthropicToolCallSchema_def zod_defs object_defs)
  from detect_priority_order[of ?both] b1
  have 1: "detectToolCallProvider ?both = \<lparr>provider = TC_OPENAI,
      validatedToolCall = Some (JObj [(''id'', JStr ''1''),
                 (''function'', JObj [(''name'', JStr ''g''), (''arguments'', JObj [])])])\<rparr>"
    by blast
  from detect_priority_order[of ?anth] a1 a2
  have 2: "detectToolCallProvider ?anth =
     \<lparr>provider = TC_ANTHROPIC, validatedToolCall = Some ?anth\<rparr>"
    by blast
  from detect_priority_order[of "JStr ''tool''"] u1 u2
  have 3: "detectToolCallProvider (JStr ''tool'') =
     \<lparr>provider = TC_UNKNOWN, validatedToolCall = None\<rparr>"
    by blast
  from b1 b2 a1 1 2 u1 u2 3 show ?thesis by blast
qed

text \<open>
  Claim C6, as amended.  For every OpenAI tool call whose \<open>function.arguments\<close> is a
  map, \<open>fromOpenAIToolCall\<close> with the Anthropic target produces
  \<open>{id, type: "tool_use", name: function.name, input}\<close>, where \<open>input\<close> is the object
  the record schema builds from \<open>function.arguments\<close>: its entries without an own key
  \<open>__proto__\<close>.  So \<open>input\<close> is \<open>function.arguments\<close> itself when these have no such
  key.  A tool call whose \<open>function.arguments\<close> is a string is rejected by
  \<open>openAIToolCallSchema\<close> before the transform runs, so the conversion throws and wraps
  nothing.
\<close>

theorem fromOpenAI_anthropic_maps_only:
  "(\<forall>i f n a. field ''id'' tc = JStr i \<and> field ''function'' tc = JObj f \<and>
       field ''name'' (JObj f) = JStr n \<and> field ''arguments'' (JObj f) = JObj a \<longrightarrow>
       fromOpenAIToolCall tc ANTHROPIC =
         Inr (JObj [(''id'', JStr i), (''type'', JStr ''tool_use''), (''name'', JStr n),
                    (''input'', JObj (merge_object a))])) \<and>
   (\<forall>i f n a. field ''id'' tc = JStr i \<and> field ''function'' tc = JObj f \<and>
       field ''name'' (JObj f) = JStr n \<and> field ''arguments'' (JObj f) = JObj a \<and>
       ''__proto__'' \<notin> set (map fst a) \<and> js_object a = a \<longrightarrow>
       fromOpenAIToolCall tc ANTHROPIC =
         Inr (JObj [(''id'', JStr i), (''type'', JStr ''tool_use''), (''name'', JStr n),
                    (''input'', JObj a)])) \<and>
   (\<forall>s. field ''arguments'' (field ''function'' tc) = JStr s \<longrightarrow>
       fromOpenAIToolCall tc ANTHROPIC = Inl ZodError)"
proof (intro conjI allI impI)
  fix i f n a
  assume "field ''id'' tc = JStr i \<and> field ''function'' tc = JObj f \<and>
       field ''name'' (JObj f) = JStr n \<and> field ''arguments'' (JObj f) = JObj a"
  then show "fromOpenAIToolCall tc ANTHROPIC =
         Inr (JObj [(''id'', JStr i), (''type'', JStr ''tool_use''), (''name'', JStr n),
                    (''input'', JObj (merge_object a))])"
    using fromOpenAI_anthropic by blast
next
  fix i f n a
  assume h: "field ''id'' tc = JStr i \<and> field ''function'' tc = JObj f \<and>
       field ''name'' (JObj f) = JStr n \<and> field ''arguments'' (JObj f) = JObj a \<and>
       ''__proto__'' \<notin> set (map fst a) \<and> js_object a = a"
  then have "merge_object a = a"
    using merge_object_id by blast
  with h fromOpenAI_anthropic[of tc i f n a]
  show "fromOpenAIToolCall tc ANTHROPIC =
         Inr (JObj [(''id'', JStr i), (''type'', JStr ''tool_use''), (''name'', JStr n),
                    (''input'', JObj a)])"
    by simp
next
  fix s
  assume "field ''arguments'' (field ''function'' tc) = JStr s"
  then show "fromOpenAIToolCall tc ANTHROPIC = Inl ZodError"
    by (rule fromOpenAI_string_arguments)
qed

text \<open>
  A tool call with an extra key in \<open>function\<close>, whose arguments come through as they
  are, and a tool call with a string for arguments.
\<close>

theorem fromOpenAI_anthropic_maps_only_witness:
  "''__proto__'' \<notin> set (map fst [(''city'', JStr ''San Francisco'')]) \<and>
   js_object [(''city'', JStr ''San Francisco'')] = [(''city'', JStr ''San Francisco'')] \<and>
   fromOpenAIToolCall
     (JObj [(''id'', JStr ''1''), (''function'',
        JObj [(''name'', JStr ''getCurrentWeather''),
              (''arguments'', JObj [(''city'', JStr ''San Francisco'')]),
              (''strict'', JBool True)])]) ANTHROPIC =
     Inr (JObj [(''id'', JStr ''1''), (''type'', JStr ''tool_use''),
                (''name'', JStr ''getCurrentWeather''),
                (''input'', JObj [(''city'', JStr ''San Francisco'')])]) \<and>
   fromOpenAIToolCall
     (JObj [(''id'', JStr ''1''), (''function'',
        JObj [(''name'', JStr ''getCurrentWeather''), (''arguments'', JStr ''city'')])])
     ANTHROPIC = Inl ZodError"
proof -
  let ?a = "[(''city'', JStr ''San Francisco'')]"
  let ?f = "[(''name'', JStr ''getCurrentWeather''), (''arguments'', JObj ?a),
              (''strict'', JBool True)]"
  let ?tc = "JObj [(''id'', JStr ''1''), (''function'', JObj ?f)]"
  let ?ts = "JObj [(''id'', JStr ''1''), (''function'',
        JObj [(''name'', JStr ''getCurrentWeather''), (''arguments'', JStr ''city'')])]"
  have p: "''__proto__'' \<notin> set (map fst ?a)"
    by simp
  have o: "js_object ?a = ?a"
    by (simp add: object_defs)
  have h: "field ''id'' ?tc = JStr ''1'' \<and> field ''function'' ?tc = JObj ?f \<and>
       field ''name'' (JObj ?f) = JStr ''getCurrentWeather'' \<and>
       field ''arguments'' (JObj ?f) = JObj ?a"
    by (simp add: field_def)
  have s: "field ''arguments'' (field ''function'' ?ts) = JStr ''city''"
    by (simp add: field_def)
  from fromOpenAI_anthropic_maps_only[of ?tc] h p o
  have 1: "fromOpenAIToolCall ?tc ANTHROPIC =
     Inr (JObj [(''id'', JStr ''1''), (''type'', JStr ''tool_use''),
                (''name'', JStr ''getCurrentWeather''), (''input'', JObj ?a)])"
    by blast
  from fromOpenAI_anthropic_maps_only[of ?ts] s
  have 2: "fromOpenAIToolCall ?ts ANTHROPIC = Inl ZodError"
    by blast
  from p o 1 2 show ?thesis by blast
qed

text \<open>
  Claim C6 as first stated fails: with the string \<open>city\<close> for arguments the result is
  not the tool call whose input is the map from \<open>city\<close> to \<open>city\<close>; and with the own
  key \<open>__proto__\<close> in the arguments the input is not the arguments.
\<close>

theorem fromOpenAI_string_arguments_counterexample:
  "fromOpenAIToolCall
     (JObj [(''id'', JStr ''1''), (''function'',
        JObj [(''name'', JStr ''getCurrentWeather''), (''arguments'', JStr ''city'')])])
     ANTHROPIC \<noteq>
     Inr (JObj [(''id'', JStr ''1''), (''type'', JStr ''tool_use''),
                (''name'', JStr ''getCurrentWeather''),
                (''input'', JObj [(''city'', JStr ''city'')])]) \<and>
   fromOpenAIToolCall
     (JObj [(''id'', JStr ''1''), (''function'',
        JObj [(''name'', JStr ''f''),
              (''arguments'', JObj [(''__proto__'', JStr ''x''), (''a'', JStr ''b'')])])])
     ANTHROPIC \<noteq>
     Inr (JObj [(''id'', JStr ''1''), (''type'', JStr ''tool_use''), (''name'', JStr ''f''),
                (''input'', JObj [(''__proto__'', JStr ''x''), (''a'', JStr ''b'')])])"
  by (simp add: fromOpenAIToolCall_def openAIToolCallToAnthropic_def openAIToolCallSchema_def
      openAIToAnthropic_def zod_defs object_defs)

section \<open>Invocation parameters: reconciliation and constraint\<close>

lemma map_filter_concat:
  "List.map_filter f xs = concat (map (\<lambda>x. case f x of None \<Rightarrow> [] | Some y \<Rightarrow> [y]) xs)"
  by (induction xs) (simp_all add: List.map_filter_simps split: option.splits)

lemma matches_key_nonempty:
  "matches_key key mp =
     (nonempty_equals_ci (canonicalName mp) key \<or> nonempty_equals_ci (invocationName mp) key)"
  by (simp add: matches_key_def nonempty_equals_ci_def truthy_def split: nullish.splits)

lemma invocationParameterInput_of_entry:
  "(case invocationParameterInput_of defs e of None \<Rightarrow> [] | Some y \<Rightarrow> [y]) =
     reconcile_entry nonempty_equals_ci defs e"
proof -
  have "matches_key k = (\<lambda>mp. nonempty_equals_ci (canonicalName mp) k \<or>
      nonempty_equals_ci (invocationName mp) k)" for k
    by (rule ext) (rule matches_key_nonempty)
  then show ?thesis
    by (simp add: invocationParameterInput_of_def reconcile_entry_def
        split: prod.splits option.splits nullish.splits)
qed

lemma transform_reconcile:
  "transformInvocationParametersFromAttributesToInvocationParameterInputs raw defs =
     reconcile_by nonempty_equals_ci raw defs"
  by (simp add: transformInvocationParametersFromAttributesToInvocationParameterInputs_def
      reconcile_by_def map_filter_concat invocationParameterInput_of_entry)

lemma toLowerCase_empty: "toLowerCase s = toLowerCase key \<Longrightarrow> key \<noteq> [] \<Longrightarrow> s \<noteq> []"
  by (auto simp add: toLowerCase_def)

lemma equals_ci_nonempty_key:
  "key \<noteq> [] \<Longrightarrow> nonempty_equals_ci x key = equals_ci x key"
  by (auto simp add: nonempty_equals_ci_def equals_ci_def toLowerCase_def split: nullish.splits)

lemma reconcile_entry_nonempty_key:
  "fst e \<noteq> [] \<Longrightarrow> reconcile_entry nonempty_equals_ci defs e = reconcile_entry equals_ci defs e"
  by (cases e) (simp add: reconcile_entry_def equals_ci_nonempty_key)

lemma reconcile_by_nonempty_keys:
  "\<forall>e \<in> set raw. fst e \<noteq> [] \<Longrightarrow>
     reconcile_by nonempty_equals_ci raw defs = reconcile_by equals_ci raw defs"
  by (induction raw) (simp_all add: reconcile_by_def reconcile_entry_nonempty_key)

text \<open>
  Claim C9, as amended.  For every raw map and definition list, reconciliation emits, for
  each entry in order, the input \<open>{canonicalName, invocationName, <camelCased input
  field>: value}\<close> built from the first definition that has a non-empty canonical name or
  a non-empty invocation name equal to the key up to case, and drops the entry when there
  is no such definition or when it lacks an input field or an invocation name.  Where no
  key of the raw map is the empty string, this is the claim as first stated.
\<close>

theorem reconcile_first_match:
  "transformInvocationParametersFromAttributesToInvocationParameterInputs raw defs =
     reconcile_by nonempty_equals_ci raw defs \<and>
   ((\<forall>e \<in> set raw. fst e \<noteq> []) \<longrightarrow>
      transformInvocationParametersFromAttributesToInvocationParameterInputs raw defs =
        reconcile_by equals_ci raw defs)"
  using transform_reconcile reconcile_by_nonempty_keys by simp

text \<open>
  The two examples of the specification: \<open>{"temperature": 0.7}\<close> against a definition
  with the input field \<open>double_value\<close>, and a key that no definition matches.
\<close>

theorem reconcile_first_match_witness:
  "fst (''temperature'', JNum 0.7) \<noteq> [] \<and>
   transformInvocationParametersFromAttributesToInvocationParameterInputs
     [(''temperature'', JNum 0.7)]
     [\<lparr>canonicalName = Undefined, invocationName = Defined ''temperature'',
       invocationInputField = Defined ''double_value''\<rparr>] =
   reconcile_by equals_ci [(''temperature'', JNum 0.7)]
     [\<lparr>canonicalName = Undefined, invocationName = Defined ''temperature'',
       invocationInputField = Defined ''double_value''\<rparr>] \<and>
   reconcile_by equals_ci [(''temperature'', JNum 0.7)]
     [\<lparr>canonicalName = Undefined, invocationName = Defined ''temperature'',
       invocationInputField = Defined ''double_value''\<rparr>] =
     [[(''canonicalName'', JUndefined), (''invocationName'', JStr ''temperature''),
       (''doubleValue'', JNum 0.7)]] \<and>
   transformInvocationParametersFromAttributesToInvocationParameterInputs
     [(''unknown_param'', JNum 1)]
     [\<lparr>canonicalName = Undefined, invocationName = Defined ''temperature'',
       invocationInputField = Defined ''double_value''\<rparr>] = []"
proof -
  let ?d = "\<lparr>canonicalName = Undefined, invocationName = Defined ''temperature'',
       invocationInputField = Defined ''double_value''\<rparr>"
  have c: "toCamelCase ''double_value'' = ''doubleValue''"
    by code_simp
  have l: "toLowerCase ''temperature'' = ''temperature''"
    "toLowerCase ''unknown_param'' = ''unknown_param''"
    by code_simp+
  have a: "reconcile_by equals_ci [(''temperature'', JNum 0.7)] [?d] =
     [[(''canonicalName'', JUndefined), (''invocationName'', JStr ''temperature''),
       (''doubleValue'', JNum 0.7)]]"
    by (simp add: reconcile_by_def reconcile_entry_def equals_ci_def c l json_of_nullish_def
        object_defs del: toCamelCase.simps)
  have b: "reconcile_by equals_ci [(''unknown_param'', JNum 1)] [?d] = []"
    by (simp add: reconcile_by_def reconcile_entry_def equals_ci_def l)
  have h1: "\<forall>e \<in> set [(''temperature'', JNum 0.7)]. fst e \<noteq> []"
    and h2: "\<forall>e \<in> set [(''unknown_param'', JNum 1)]. fst e \<noteq> []"
    by simp_all
  have t1: "transformInvocationParametersFromAttributesToInvocationParameterInputs
      [(''temperature'', JNum 0.7)] [?d] = reconcile_by equals_ci [(''temperature'', JNum 0.7)] [?d]"
    using reconcile_first_match[of "[(''temperature'', JNum 0.7)]" "[?d]"] h1 by blast
  have t2: "transformInvocationParametersFromAttributesToInvocationParameterInputs
      [(''unknown_param'', JNum 1)] [?d] = reconcile_by equals_ci [(''unknown_param'', JNum 1)] [?d]"
    using reconcile_first_match[of "[(''unknown_param'', JNum 1)]" "[?d]"] h2 by blast
  show ?thesis
    unfolding t1 t2 a b by simp
qed

text \<open>
  Claim C9 as first stated fails on the empty key: a definition whose invocation name is
  the empty string is equal to it, and the code emits nothing because the empty name is
  falsy.
\<close>

theorem reconcile_empty_key_counterexample:
  "transformInvocationParametersFromAttributesToInvocationParameterInputs
     [([], JNum 1)]
     [\<lparr>canonicalName = Null, invocationName = Defined [],
       invocationInputField = Defined ''value_int''\<rparr>] = [] \<and>
   reconcile_by equals_ci [([], JNum 1)]
     [\<lparr>canonicalName = Null, invocationName = Defined [],
       invocationInputField = Defined ''value_int''\<rparr>] =
     [[(''canonicalName'', JNull), (''invocationName'', JStr []), (''valueInt'', JNum 1)]]"
proof -
  have c: "toCamelCase ''value_int'' = ''valueInt''"
    by code_simp
  show ?thesis
    by (simp add: transformInvocationParametersFromAttributesToInvocationParameterInputs_def
        invocationParameterInput_of_def matches_key_def truthy_def
        reconcile_by_def reconcile_entry_def equals_ci_def toLowerCase_def c json_of_nullish_def
        object_defs del: toCamelCase.simps)
qed

text \<open>
  Claim C10.  The claim has a surviving input renamed to the invocation name of the
  definition that matches its canonical parameter, and left as it is when there is none.
  The filter compares canonical names only when both are non-null; the \<open>find\<close> of the
  renaming compares them with \<open>===\<close> alone, so an input without a canonical name is
  renamed to the first definition without one.  Here \<open>presence_penalty\<close> becomes
  \<open>frequency_penalty\<close>.
\<close>

theorem constrain_renames_without_canonical_name:
  "constrainInvocationParameterInputsToDefinition
     [[(''invocationName'', JStr ''presence_penalty''), (''canonicalName'', JNull),
       (''valueFloat'', JNum 0.5)]]
     [\<lparr>canonicalName = Null, invocationName = Defined ''frequency_penalty'',
       invocationInputField = Defined ''value_float''\<rparr>,
      \<lparr>canonicalName = Null, invocationName = Defined ''presence_penalty'',
       invocationInputField = Defined ''value_float''\<rparr>] =
     [[(''invocationName'', JStr ''frequency_penalty''), (''canonicalName'', JNull),
       (''valueFloat'', JNum 0.5)]]"
  by (simp add: constrainInvocationParameterInputsToDefinition_def keeps_input_def
      renamed_input_def json_of_nullish_def field_def is_nullish_def object_defs)

section \<open>Chat roles\<close>

text \<open>
  Claim C8.  \<open>getChatRole\<close> returns a member of the role enum for every string, given
  that the keys of \<open>ChatRoleMap\<close> and \<open>DEFAULT_CHAT_ROLE\<close> are members of the enum, as
  their types say.  A member of the enum is returned as it is; otherwise the first entry
  of \<open>ChatRoleMap\<close> whose accepted values hold the string gives the role; otherwise the
  role is \<open>DEFAULT_CHAT_ROLE\<close>.
\<close>

theorem getChatRole_total:
  assumes "\<forall>entry \<in> set (ChatRoleMap d). fst entry \<in> set (chatMessageRoles d)"
    and "DEFAULT_CHAT_ROLE d \<in> set (chatMessageRoles d)"
  shows "getChatRole d r \<in> set (chatMessageRoles d) \<and>
    (r \<in> set (chatMessageRoles d) \<longrightarrow> getChatRole d r = r) \<and>
    (r \<notin> set (chatMessageRoles d) \<longrightarrow>
       (\<forall>chatRole acceptedValues.
          find (\<lambda>(c, a). r \<in> set a) (ChatRoleMap d) = Some (chatRole, acceptedValues) \<longrightarrow>
          getChatRole d r = chatRole)) \<and>
    (r \<notin> set (chatMessageRoles d) \<and> find (\<lambda>(c, a). r \<in> set a) (ChatRoleMap d) = None \<longrightarrow>
       getChatRole d r = DEFAULT_CHAT_ROLE d)"
proof -
  have "fst e \<in> set (chatMessageRoles d)"
    if "find (\<lambda>(c, a). r \<in> set a) (ChatRoleMap d) = Some e" for e
  proof -
    from that obtain i where "i < length (ChatRoleMap d)" and "ChatRoleMap d ! i = e"
      by (auto simp add: find_Some_iff)
    then have "e \<in> set (ChatRoleMap d)"
      using nth_mem by force
    with assms(1) show ?thesis by blast
  qed
  with assms(2) show ?thesis
    by (auto simp add: getChatRole_def isChatMessageRole_def split: option.splits)
qed

text \<open>
  On the constants modelled from the specification, \<open>tool\<close> is returned as it is,
  \<open>ai\<close> resolves to the assistant role and \<open>unknown-role-xyz\<close> to the default role.
\<close>

theorem getChatRole_total_witness:
  "fst ` set (ChatRoleMap example_deps) \<subseteq> set (chatMessageRoles example_deps) \<and>
   DEFAULT_CHAT_ROLE example_deps \<in> set (chatMessageRoles example_deps) \<and>
   getChatRole example_deps ''tool'' = ''tool'' \<and>
   getChatRole example_deps ''ai'' = ''assistant'' \<and>
   getChatRole example_deps ''unknown-role-xyz'' = ''user''"
proof -
  have h1: "\<forall>entry \<in> set (ChatRoleMap example_deps). fst entry \<in> set (chatMessageRoles example_deps)"
    by (simp add: example_deps_def spec_ChatRoleMap_def spec_chatMessageRoles_def)
  have h2: "DEFAULT_CHAT_ROLE example_deps \<in> set (chatMessageRoles example_deps)"
    by (simp add: example_deps_def spec_DEFAULT_CHAT_ROLE_def spec_chatMessageRoles_def)
  have t: "''tool'' \<in> set (chatMessageRoles example_deps)"
    and a: "''ai'' \<notin> set (chatMessageRoles example_deps)"
    and u: "''unknown-role-xyz'' \<notin> set (chatMessageRoles example_deps)"
    by (simp_all add: example_deps_def spec_chatMessageRoles_def)
  have fa: "find (\<lambda>(c, a). ''ai'' \<in> set a) (ChatRoleMap example_deps) = Some (''assistant'', [''ai''])"
    and fu: "find (\<lambda>(c, a). ''unknown-role-xyz'' \<in> set a) (ChatRoleMap example_deps) = None"
    by (simp_all add: example_deps_def spec_ChatRoleMap_def)
  have du: "DEFAULT_CHAT_ROLE example_deps = ''user''"
    by (simp add: example_deps_def spec_DEFAULT_CHAT_ROLE_def)
  from getChatRole_total[OF h1 h2, of "''tool''"] t
  have 1: "getChatRole example_deps ''tool'' = ''tool''" by blast
  from getChatRole_total[OF h1 h2, of "''ai''"] a fa
  have 2: "getChatRole example_deps ''ai'' = ''assistant''" by blast
  from getChatRole_total[OF h1 h2, of "''unknown-role-xyz''"] u fu du
  have 3: "getChatRole example_deps ''unknown-role-xyz'' = ''user''" by metis
  have s: "fst ` set (ChatRoleMap example_deps) \<subseteq> set (chatMessageRoles example_deps)"
    using h1 by blast
  from s h2 1 2 3 show ?thesis by blast
qed

section \<open>Extraction from span attributes\<close>

text \<open>
  Claim C3.  When the attributes of a span fail to parse,
  \<open>transformSpanAttributesToPlaygroundInstance\<close> returns the instance that
  \<open>createPlaygroundInstance\<close> made with only \<open>spanId\<close> set, and the error list
  \<open>[SPAN_ATTRIBUTES_PARSING_ERROR]\<close>.  No extraction step runs: the result depends on
  no schema, and the identifier counters are as they were.
\<close>

theorem span_attributes_parse_failure:
  assumes "parseError (safelyParseJSON d (attributes sp)) \<noteq> None"
  shows "transformSpanAttributesToPlaygroundInstance d sp st =
    (Inr ((createPlaygroundInstance d)\<lparr>spanId := Some (span_id sp)\<rparr>,
          [SPAN_ATTRIBUTES_PARSING_ERROR]), st)"
  using assms by (simp add: transformSpanAttributesToPlaygroundInstance_def Let_def)

theorem span_attributes_parse_failure_witness:
  "parseError (safelyParseJSON example_deps
      (attributes \<lparr>span_id = ''span-1'', attributes = ''{invalid'', span_invocationParameters = []\<rparr>))
     \<noteq> None \<and>
   transformSpanAttributesToPlaygroundInstance example_deps
     \<lparr>span_id = ''span-1'', attributes = ''{invalid'', span_invocationParameters = []\<rparr>
     \<lparr>nextMessageId = 0, nextToolId = 0\<rparr> =
   (Inr (example_instance\<lparr>spanId := Some ''span-1''\<rparr>, [SPAN_ATTRIBUTES_PARSING_ERROR]),
    \<lparr>nextMessageId = 0, nextToolId = 0\<rparr>)"
proof -
  let ?sp = "\<lparr>span_id = ''span-1'', attributes = ''{invalid'', span_invocationParameters = []\<rparr>"
  have h: "parseError (safelyParseJSON example_deps (attributes ?sp)) \<noteq> None"
    by (simp add: example_deps_def example_safelyParseJSON_def)
  have c: "createPlaygroundInstance example_deps = example_instance"
    by (simp add: example_deps_def)
  from span_attributes_parse_failure[OF h, of "\<lparr>nextMessageId = 0, nextToolId = 0\<rparr>"] h c
  show ?thesis by simp
qed

lemma all_some_map_Some:
  "all_some (map f xs) = Some ys \<Longrightarrow> e \<in> set xs \<Longrightarrow> f e \<noteq> None"
  by (induction xs arbitrary: ys) (auto split: option.splits)

lemma getTools_failure:
  "llmToolSchema d attrs = None \<Longrightarrow>
     getToolsFromAttributes d attrs st = ((None, [TOOLS_PARSING_ERROR]), st)"
  by (simp add: getToolsFromAttributes_def)

lemma getTools_no_tools:
  "llmToolSchema d attrs = Some data \<Longrightarrow> tools_of data = None \<Longrightarrow>
     getToolsFromAttributes d attrs st = ((None, []), st)"
  by (simp add: getToolsFromAttributes_def)

lemma spec_llmToolSchema_absent:
  "llm_tools_absent attrs \<Longrightarrow>
     \<exists>data. spec_llmToolSchema attrs = Some data \<and> tools_of data = None"
  by (auto simp add: llm_tools_absent_def spec_llmToolSchema_def tools_of_def
      split: json.splits)

lemma spec_llmToolSchema_malformed:
  "llm_tools_present attrs t \<Longrightarrow> \<not> tools_shape t \<Longrightarrow> spec_llmToolSchema attrs = None"
  by (auto simp add: llm_tools_present_def spec_llmToolSchema_def tools_shape_def
      list_all_iff split: json.splits option.splits dest: all_some_map_Some)

text \<open>
  Claim C4.  With \<open>llmToolSchema\<close> as the specification describes it,
  \<open>getToolsFromAttributes\<close> returns no tools and no error when the \<open>llm.tools\<close> path
  is absent, and no tools and \<open>[TOOLS_PARSING_ERROR]\<close> when the path is present with a
  value that is not a list of \<open>{tool: {json_schema}}\<close>.
\<close>

theorem tools_absent_or_malformed:
  assumes "llmToolSchema d = spec_llmToolSchema"
  shows "(llm_tools_absent attrs \<longrightarrow>
            getToolsFromAttributes d attrs st = ((None, []), st)) \<and>
         (\<forall>t. llm_tools_present attrs t \<and> \<not> tools_shape t \<longrightarrow>
            getToolsFromAttributes d attrs st = ((None, [TOOLS_PARSING_ERROR]), st))"
proof (intro conjI impI allI)
  assume "llm_tools_absent attrs"
  then obtain data where "spec_llmToolSchema attrs = Some data" and "tools_of data = None"
    using spec_llmToolSchema_absent by blast
  with assms show "getToolsFromAttributes d attrs st = ((None, []), st)"
    by (simp add: getTools_no_tools)
next
  fix t
  assume "llm_tools_present attrs t \<and> \<not> tools_shape t"
  then have "spec_llmToolSchema attrs = None"
    using spec_llmToolSchema_malformed by blast
  with assms show "getToolsFromAttributes d attrs st = ((None, [TOOLS_PARSING_ERROR]), st)"
    by (simp add: getTools_failure)
qed

text \<open>The two examples of the specification: \<open>{}\<close> and \<open>{llm: {tools: "not-a-list"}}\<close>.\<close>

theorem tools_absent_or_malformed_witness:
  "llmToolSchema example_deps = spec_llmToolSchema \<and>
   llm_tools_absent (JObj []) \<and>
   getToolsFromAttributes example_deps (JObj []) \<lparr>nextMessageId = 0, nextToolId = 0\<rparr> =
     ((None, []), \<lparr>nextMessageId = 0, nextToolId = 0\<rparr>) \<and>
   llm_tools_present (JObj [(''llm'', JObj [(''tools'', JStr ''not-a-list'')])])
     (JStr ''not-a-list'') \<and>
   \<not> tools_shape (JStr ''not-a-list'') \<and>
   getToolsFromAttributes example_deps
     (JObj [(''llm'', JObj [(''tools'', JStr ''not-a-list'')])])
     \<lparr>nextMessageId = 0, nextToolId = 0\<rparr> =
     ((None, [TOOLS_PARSING_ERROR]), \<lparr>nextMessageId = 0, nextToolId = 0\<rparr>)"
proof -
  have h: "llmToolSchema example_deps = spec_llmToolSchema"
    by (simp add: example_deps_def)
  have a: "llm_tools_absent (JObj [])"
    by (simp add: llm_tools_absent_def field_def)
  have p: "llm_tools_present (JObj [(''llm'', JObj [(''tools'', JStr ''not-a-list'')])])
     (JStr ''not-a-list'')"
    by (simp add: llm_tools_present_def field_def)
  have s: "\<not> tools_shape (JStr ''not-a-list'')"
    by (simp add: tools_shape_def)
  from tools_absent_or_malformed[OF h, of "JObj []" "\<lparr>nextMessageId = 0, nextToolId = 0\<rparr>"] a
  have 1: "getToolsFromAttributes example_deps (JObj []) \<lparr>nextMessageId = 0, nextToolId = 0\<rparr> =
     ((None, []), \<lparr>nextMessageId = 0, nextToolId = 0\<rparr>)"
    by blast
  from tools_absent_or_malformed[OF h,
      of "JObj [(''llm'', JObj [(''tools'', JStr ''not-a-list'')])]"
         "\<lparr>nextMessageId = 0, nextToolId = 0\<rparr>"] p s
  have 2: "getToolsFromAttributes example_deps
     (JObj [(''llm'', JObj [(''tools'', JStr ''not-a-list'')])])
     \<lparr>nextMessageId = 0, nextToolId = 0\<rparr> =
     ((None, [TOOLS_PARSING_ERROR]), \<lparr>nextMessageId = 0, nextToolId = 0\<rparr>)"
    by blast
  from h a p s 1 2 show ?thesis by blast
qed

text \<open>
  Claim C7.  \<open>getOutputFromAttributes\<close> tries \<open>llmOutputMessageSchema\<close> first and
  returns the messages with no error when it matches.  When it does not match, the error
  list starts with \<open>OUTPUT_MESSAGES_PARSING_ERROR\<close> and \<open>outputSchema\<close> is tried: a
  match gives the output value, a mismatch adds \<open>OUTPUT_VALUE_PARSING_ERROR\<close> and gives
  no output.  With the schemas as the specification describes them, the attributes
  \<open>{}\<close> give both errors, in that order.
\<close>

theorem output_fallback_order:
  "(\<forall>msgs. llmOutputMessageSchema d attrs = Some msgs \<longrightarrow>
      getOutputFromAttributes d prov attrs st =
        (case processAttributeMessagesToChatMessage d msgs prov st of
           (Inl e, st1) \<Rightarrow> (Inl e, st1)
         | (Inr ms, st1) \<Rightarrow> (Inr (OutputMessages ms, []), st1))) \<and>
   (\<forall>v. llmOutputMessageSchema d attrs = None \<and> outputSchema d attrs = Some v \<longrightarrow>
      getOutputFromAttributes d prov attrs st =
        (Inr (OutputValue v, [OUTPUT_MESSAGES_PARSING_ERROR]), st)) \<and>
   (llmOutputMessageSchema d attrs = None \<and> outputSchema d attrs = None \<longrightarrow>
      getOutputFromAttributes d prov attrs st =
        (Inr (OutputUndefined, [OUTPUT_MESSAGES_PARSING_ERROR, OUTPUT_VALUE_PARSING_ERROR]), st)) \<and>
   (llmOutputMessageSchema d = spec_llmOutputMessageSchema \<and> outputSchema d = spec_outputSchema \<longrightarrow>
      getOutputFromAttributes d prov (JObj []) st =
        (Inr (OutputUndefined, [OUTPUT_MESSAGES_PARSING_ERROR, OUTPUT_VALUE_PARSING_ERROR]), st))"
  by (simp add: getOutputFromAttributes_def spec_llmOutputMessageSchema_def
      spec_llmMessagesSchema_def spec_outputSchema_def field_def)

theorem output_fallback_order_witness:
  "llmOutputMessageSchema example_deps = spec_llmOutputMessageSchema \<and>
   outputSchema example_deps = spec_outputSchema \<and>
   getOutputFromAttributes example_deps OPENAI (JObj []) \<lparr>nextMessageId = 0, nextToolId = 0\<rparr> =
     (Inr (OutputUndefined, [OUTPUT_MESSAGES_PARSING_ERROR, OUTPUT_VALUE_PARSING_ERROR]),
      \<lparr>nextMessageId = 0, nextToolId = 0\<rparr>) \<and>
   llmOutputMessageSchema example_deps (JObj [(''output'', JObj [(''value'', JStr ''hi'')])]) = None \<and>
   outputSchema example_deps (JObj [(''output'', JObj [(''value'', JStr ''hi'')])]) = Some ''hi'' \<and>
   getOutputFromAttributes example_deps OPENAI
     (JObj [(''output'', JObj [(''value'', JStr ''hi'')])]) \<lparr>nextMessageId = 0, nextToolId = 0\<rparr> =
     (Inr (OutputValue ''hi'', [OUTPUT_MESSAGES_PARSING_ERROR]),
      \<lparr>nextMessageId = 0, nextToolId = 0\<rparr>)"
proof -
  let ?st = "\<lparr>nextMessageId = 0, nextToolId = 0\<rparr>"
  let ?a = "JObj [(''output'', JObj [(''value'', JStr ''hi'')])]"
  have h1: "llmOutputMessageSchema example_deps = spec_llmOutputMessageSchema"
    and h2: "outputSchema example_deps = spec_outputSchema"
    by (simp_all add: example_deps_def)
  have n: "llmOutputMessageSchema example_deps ?a = None"
    by (simp add: h1 spec_llmOutputMessageSchema_def spec_llmMessagesSchema_def field_def)
  have v: "outputSchema example_deps ?a = Some ''hi''"
    by (simp add: h2 spec_outputSchema_def field_def)
  from output_fallback_order[of example_deps "JObj []" OPENAI ?st] h1 h2
  have 1: "getOutputFromAttributes example_deps OPENAI (JObj []) ?st =
     (Inr (OutputUndefined, [OUTPUT_MESSAGES_PARSING_ERROR, OUTPUT_VALUE_PARSING_ERROR]), ?st)"
    by blast
  from output_fallback_order[of example_deps ?a OPENAI ?st] n v
  have 2: "getOutputFromAttributes example_deps OPENAI ?a ?st =
     (Inr (OutputValue ''hi'', [OUTPUT_MESSAGES_PARSING_ERROR]), ?st)"
    by blast
  from h1 h2 n v 1 2 show ?thesis by blast
qed

end
